theory Spec2Isabelle
  imports Complex_Main "HOL-Library.Word" "HOL-Library.Char_ord" "HOL-Library.List_Lexorder"
begin

section \<open>The semantic segmentation service: data model\<close>

text \<open>
  The node \<^verbatim>\<open>semantic_segmentation_integrate_node.cpp\<close> holds one class, \<^verbatim>\<open>Labeler\<close>,
  with the two request handlers \<^verbatim>\<open>label_cloud\<close> and \<^verbatim>\<open>label_cloud_plus\<close> and the private
  \<^verbatim>\<open>publish_clouds\<close>. The handlers are modelled by explicit state passing: the members
  \<^verbatim>\<open>_stored_waypoints\<close> and \<^verbatim>\<open>_frame_id\<close> are the state, the collaborators (services,
  voxelization, random forest, dense CRF, label converter, configuration) are the fields of
  an environment record, and what the handler does to the outside (collaborator calls,
  publishing) is returned as a list of events.
\<close>

subsection \<open>Single-precision numbers\<close>

text \<open>
  A C++ \<^verbatim>\<open>float\<close>: a finite value, which is a real number, or one of the special values of
  IEEE 754. The special values are kept because a HOL division by zero is \<open>0\<close> while the
  C++ one gives an infinity or NaN. The result of an arithmetic operation on finite values
  is rounded to single precision; the rounding is a parameter \<open>rnd\<close> of the operations, a
  function from the exact result to the float that is stored (an infinity when the result
  is out of range), and nothing is assumed about it.
\<close>

datatype float = Finite real | PlusInf | MinusInf | NaN

text \<open>\<^verbatim>\<open>a > b\<close> on floats: false as soon as one side is NaN.\<close>

fun fgt :: "float \<Rightarrow> float \<Rightarrow> bool" where
  "fgt NaN _ = False"
| "fgt _ NaN = False"
| "fgt (Finite a) (Finite b) = (a > b)"
| "fgt PlusInf PlusInf = False"
| "fgt PlusInf _ = True"
| "fgt _ PlusInf = False"
| "fgt MinusInf _ = False"
| "fgt _ MinusInf = True"

text \<open>\<^verbatim>\<open>a + b\<close> on floats, rounded by \<open>rnd\<close>.\<close>

fun fadd :: "(real \<Rightarrow> float) \<Rightarrow> float \<Rightarrow> float \<Rightarrow> float" where
  "fadd rnd NaN _ = NaN"
| "fadd rnd _ NaN = NaN"
| "fadd rnd (Finite a) (Finite b) = rnd (a + b)"
| "fadd rnd PlusInf MinusInf = NaN"
| "fadd rnd MinusInf PlusInf = NaN"
| "fadd rnd PlusInf _ = PlusInf"
| "fadd rnd _ PlusInf = PlusInf"
| "fadd rnd MinusInf _ = MinusInf"
| "fadd rnd _ MinusInf = MinusInf"

text \<open>
  \<^verbatim>\<open>a / b\<close> on floats, rounded by \<open>rnd\<close>. A zero divisor gives NaN for a zero dividend and
  an infinity otherwise (the sign of a zero is not modelled: the only divisor the node uses
  is \<^verbatim>\<open>float(N)\<close>, a positive zero when \<open>N = 0\<close>).
\<close>

fun fdiv :: "(real \<Rightarrow> float) \<Rightarrow> float \<Rightarrow> float \<Rightarrow> float" where
  "fdiv rnd NaN _ = NaN"
| "fdiv rnd _ NaN = NaN"
| "fdiv rnd (Finite a) (Finite b) =
     (if b = 0 then (if a = 0 then NaN else if a > 0 then PlusInf else MinusInf)
      else rnd (a / b))"
| "fdiv rnd (Finite a) _ = Finite 0"
| "fdiv rnd PlusInf (Finite b) = (if b < 0 then MinusInf else PlusInf)"
| "fdiv rnd MinusInf (Finite b) = (if b < 0 then PlusInf else MinusInf)"
| "fdiv rnd _ _ = NaN"

text \<open>
  \<^verbatim>\<open>float(N)\<close> for an \<^verbatim>\<open>int\<close>: zero is a float, every other value is rounded.
\<close>

definition float_of_int :: "(real \<Rightarrow> float) \<Rightarrow> int \<Rightarrow> float" where
  "float_of_int rnd n = (if n = 0 then Finite 0 else rnd (of_int n))"

subsection \<open>Machine integers\<close>

text \<open>
  The values of a 32-bit \<^verbatim>\<open>int\<close>. An \<^verbatim>\<open>int\<close> operation whose exact result is outside them is
  undefined behaviour, and the model stops there with an error; an \<^verbatim>\<open>unsigned\<close> operation
  wraps modulo \<open>2\<^sup>3\<^sup>2\<close>.
\<close>

definition in_int :: "int \<Rightarrow> bool" where
  "in_int n = (- (2 ^ 31) \<le> n \<and> n < 2 ^ 31)"

definition to_uint :: "nat \<Rightarrow> nat" where
  "to_uint n = n mod 2 ^ 32"

text \<open>The real number a finite float stands for.\<close>

fun fval :: "float \<Rightarrow> real" where
  "fval (Finite r) = r"
| "fval _ = 0"

fun is_finite :: "float \<Rightarrow> bool" where
  "is_finite (Finite _) = True"
| "is_finite _ = False"

subsection \<open>Points and clouds\<close>

type_synonym uchar = "8 word"

text \<open>\<^verbatim>\<open>pcl::PointXYZRGBA\<close>: coordinates and a colour with alpha.\<close>

record point_xyzrgba =
  px :: float
  py :: float
  pz :: float
  pr :: uchar
  pg :: uchar
  pb :: uchar
  pa :: uchar

text \<open>\<^verbatim>\<open>pcl::PointXYZRGB\<close>, the point type of the fused cloud.\<close>

record point_xyzrgb =
  fx :: float
  fy :: float
  fz :: float
  fr :: uchar
  fg :: uchar
  fb :: uchar

text \<open>An entry of \<^verbatim>\<open>res.points\<close>: the three coordinates.\<close>

record point32 =
  qx :: float
  qy :: float
  qz :: float

type_synonym cloud = "point_xyzrgba list"

text \<open>
  An \<^verbatim>\<open>Eigen::MatrixXf\<close> is stored column by column: a matrix is the list of its columns,
  and \<^verbatim>\<open>m(c, j)\<close> is entry \<open>c\<close> of column \<open>j\<close>.
\<close>

type_synonym matrix = "float list list"

definition mat :: "matrix \<Rightarrow> nat \<Rightarrow> nat \<Rightarrow> float" where
  "mat m c j = m ! j ! c"

section \<open>The label decoder's inner loop\<close>

text \<open>
  Lines 170-177:
  \<^verbatim>\<open>
  int max_label = 0;
  float max_prob = map(0,point_index);
  for(int c = 1; c < _C; ++c){
    if(map(c,point_index)  > max_prob){
      max_prob = map(c,point_index);
      max_label = c;
    }
  }
  \<close>
  The loop is \<open>max_loop\<close>, started at \<open>c = 1\<close> by \<open>decode_label\<close>.
\<close>

function max_loop :: "matrix \<Rightarrow> nat \<Rightarrow> nat \<Rightarrow> nat \<Rightarrow> nat \<Rightarrow> float \<Rightarrow> nat" where
  "max_loop m C j c max_label max_prob =
     (if c < C then
        (if fgt (mat m c j) max_prob
         then max_loop m C j (c + 1) c (mat m c j)
         else max_loop m C j (c + 1) max_label max_prob)
      else max_label)"
  by pat_completeness auto
termination
  by (relation "measure (\<lambda>(m, C, j, c, max_label, max_prob). C - c)") auto

definition decode_label :: "matrix \<Rightarrow> nat \<Rightarrow> nat \<Rightarrow> nat" where
  "decode_label m C j = max_loop m C j 1 0 (mat m 0 j)"

section \<open>The map store and the fuser\<close>

text \<open>
  \<^verbatim>\<open>std::map<std::string, Ptr> _stored_waypoints\<close> is an association list kept in the
  order of its keys, the order in which the map is iterated. \<open>map_assign m k v\<close> is
  \<^verbatim>\<open>m[k] = v\<close>: it overwrites the entry of an existing key and inserts a new key at its
  place in the order.
\<close>

fun map_assign :: "('k::linorder \<times> 'v) list \<Rightarrow> 'k \<Rightarrow> 'v \<Rightarrow> ('k \<times> 'v) list" where
  "map_assign [] k v = [(k, v)]"
| "map_assign ((k', v') # kvs) k v =
     (if k < k' then (k, v) # (k', v') # kvs
      else if k = k' then (k, v) # kvs
      else (k', v') # map_assign kvs k v)"

text \<open>
  Lines 404-414 of \<^verbatim>\<open>publish_clouds\<close>: every point of every stored cloud is pushed onto
  the fused cloud with its coordinates and colour; the alpha channel is dropped.
\<close>

definition to_xyzrgb :: "point_xyzrgba \<Rightarrow> point_xyzrgb" where
  "to_xyzrgb p = \<lparr>fx = px p, fy = py p, fz = pz p, fr = pr p, fg = pg p, fb = pb p\<rparr>"

fun fuse_points :: "cloud \<Rightarrow> point_xyzrgb list \<Rightarrow> point_xyzrgb list" where
  "fuse_points [] fused = fused"
| "fuse_points (p # ps) fused = fuse_points ps (fused @ [to_xyzrgb p])"

fun fuse_clouds :: "(string \<times> cloud) list \<Rightarrow> point_xyzrgb list \<Rightarrow> point_xyzrgb list" where
  "fuse_clouds [] fused = fused"
| "fuse_clouds ((k, cld) # rest) fused = fuse_clouds rest (fuse_points cld fused)"

text \<open>Lines 398-401: the size that is reserved for the fused cloud.\<close>

fun fused_size :: "(string \<times> cloud) list \<Rightarrow> int \<Rightarrow> int" where
  "fused_size [] sz = sz"
| "fused_size ((k, cld) # rest) sz = fused_size rest (sz + int (length cld))"

definition fuse :: "(string \<times> cloud) list \<Rightarrow> point_xyzrgb list" where
  "fuse stored = fuse_clouds stored []"


section \<open>Segments, collaborators and the handler's variables\<close>

text \<open>
  \<^verbatim>\<open>Voxel\<close> is declared in \<^verbatim>\<open>voxel.h\<close>; the node reads it through \<^verbatim>\<open>getSize()\<close>,
  \<^verbatim>\<open>getIndices()\<close> and \<^verbatim>\<open>getFeatures()\<close>, which are the fields here. The indices are
  positions in the voxelized cloud, taken as natural numbers: a negative \<^verbatim>\<open>int\<close> index is
  outside every cloud. Nothing in the node relates \<open>getSize\<close> to the number of indices,
  so the two are separate fields.
\<close>

record voxel =
  getIndices :: "nat list"
  getSize :: int
  getFeatures :: "float list"

text \<open>
  The members of \<^verbatim>\<open>Labeler\<close> that a request does not change, and the collaborators it
  calls. \<open>labeler_C\<close> is \<^verbatim>\<open>_C\<close>, \<open>minimum_points\<close> is \<^verbatim>\<open>_minimum_points\<close>; the five
  sigmas and weights and \<open>crf_iterations\<close> are the values \<^verbatim>\<open>_conf.get\<close> returns.
  A service call returns \<open>None\<close> when \<^verbatim>\<open>call\<close> returns false; the observation services
  answer with the frame id and the cloud, the origin service with the three coordinates.
  \<open>cvtColor_BGR2Lab\<close> is what \<^verbatim>\<open>cv::cvtColor\<close> does to one pixel. \<open>uninitialised\<close> is the
  content of a freshly constructed \<^verbatim>\<open>Eigen::MatrixXf\<close>, \<open>round_float\<close> the rounding of the
  machine's single-precision arithmetic. \<open>labeler_C\<close> is a natural number: it is the count
  of valid labels.
\<close>

record env =
  labeler_C :: nat
  minimum_points :: int
  appearance_color_sigma :: float
  appearance_range_sigma :: float
  appearance_weight :: float
  smoothnes_range_sigma :: float
  smoothnes_weight :: float
  crf_iterations :: int
  getLabelNames :: "string list"
  labelToRgb :: "int \<Rightarrow> uchar \<times> uchar \<times> uchar"
  cloud_service :: "string \<Rightarrow> real \<Rightarrow> (string \<times> cloud) option"
  cloud_service_plus :: "string \<Rightarrow> int \<Rightarrow> real \<Rightarrow> (string \<times> cloud) option"
  origin_service :: "string \<Rightarrow> (float \<times> float \<times> float) option"
  cvtColor_BGR2Lab :: "uchar \<times> uchar \<times> uchar \<Rightarrow> uchar \<times> uchar \<times> uchar"
  extractVoxels :: "cloud \<Rightarrow> float \<times> float \<times> float \<Rightarrow> (int \<times> voxel) list \<times> cloud"
  computeFeatures :: "voxel \<Rightarrow> float list"
  classLogPosterior :: "float list \<Rightarrow> float list"
  appearance_feature :: "voxel \<Rightarrow> nat \<Rightarrow> float \<Rightarrow> float \<Rightarrow> float list"
  smoothnes_feature :: "voxel \<Rightarrow> nat \<Rightarrow> float \<Rightarrow> float list"
  inference :: "nat \<Rightarrow> nat \<Rightarrow> matrix \<Rightarrow> matrix \<times> float \<Rightarrow> matrix \<times> float \<Rightarrow> int \<Rightarrow> matrix"
  uninitialised :: float
  round_float :: "real \<Rightarrow> float"

text \<open>
  The members a request changes. A stored cloud is a value here: the node stores the
  shared pointer that \<^verbatim>\<open>extractVoxels\<close> returned for this request and does not write to the
  cloud after line 220.
\<close>

record labeler =
  stored_waypoints :: "(string \<times> cloud) list"
  frame_id :: string

text \<open>The response message.\<close>

record response =
  res_index_to_label_name :: "string list"
  res_label :: "int list"
  res_label_probabilities :: "float list"
  res_label_frequencies :: "float list"
  res_points :: "point32 list"

text \<open>
  What a request does to its collaborators, in the order it does it: the segments whose
  features it computes, the segments it classifies and writes into the matrices, the
  inference call and the cloud it publishes with its frame id.
\<close>

datatype event =
    ComputeFeatures int
  | ClassLogPosterior int
  | AddDataToCrfMats int
  | Inference nat nat
  | Publish string "point_xyzrgb list"

text \<open>
  Reading or writing a vector, a matrix or a cloud outside its range is undefined
  behaviour in C++, and so are an \<^verbatim>\<open>int\<close> operation that overflows and the construction of a
  vector or matrix with a negative size. The model stops there with an error.
\<close>

datatype error = OutOfRange | NegativeSize | Overflow

text \<open>A range-based \<^verbatim>\<open>for\<close> loop whose body may stop the request.\<close>

fun for_each :: "('a \<Rightarrow> 's \<Rightarrow> error + 's) \<Rightarrow> 'a list \<Rightarrow> 's \<Rightarrow> error + 's" where
  "for_each body [] s = Inr s"
| "for_each body (x # xs) s =
     (case body x s of Inl err \<Rightarrow> Inl err | Inr s' \<Rightarrow> for_each body xs s')"

section \<open>The stages of a request\<close>

subsection \<open>Colour conversion, lines 93-107\<close>

definition convert_to_lab :: "env \<Rightarrow> cloud \<Rightarrow> cloud" where
  "convert_to_lab e cloud =
     map (\<lambda>p. case cvtColor_BGR2Lab e (pb p, pg p, pr p) of
                 (c0, c1, c2) \<Rightarrow> p\<lparr>pb := c0, pg := c1, pr := c2\<rparr>) cloud"

subsection \<open>The segment filter, lines 116-129\<close>

text \<open>
  \<^verbatim>\<open>
  int N = 0;
  for(auto v_it = voxels.begin(); v_it != voxels.end(); ){
    int n = v_it->second->getSize();
    if(n >= _minimum_points){
      N += n;
      v_it->second->computeFeatures();
      ++v_it;
    }else{
      voxels.erase(v_it++);
    }
  }
  \<close>
  The function returns \<open>N\<close>, the map that is left and the feature computations, or
  stops at a sum \<^verbatim>\<open>N += n\<close> that does not fit the \<^verbatim>\<open>int\<close> \<open>N\<close>.
\<close>

fun filter_voxels ::
  "env \<Rightarrow> (int \<times> voxel) list \<Rightarrow> int \<Rightarrow> error + int \<times> (int \<times> voxel) list \<times> event list" where
  "filter_voxels e [] N = Inr (N, [], [])"
| "filter_voxels e ((k, v) # rest) N =
     (let n = getSize v in
      if n \<ge> minimum_points e then
        (if in_int (N + n) then
           (case filter_voxels e rest (N + n) of
              Inl err \<Rightarrow> Inl err
            | Inr (N', kept, evs) \<Rightarrow>
                Inr (N', (k, v\<lparr>getFeatures := computeFeatures e v\<rparr>) # kept,
                     ComputeFeatures k # evs))
         else Inl Overflow)
      else filter_voxels e rest N)"

subsection \<open>The energy matrices, lines 132-147\<close>

record crf_mats =
  unary :: matrix
  feature :: matrix
  feature2 :: matrix
  crf_point_index :: nat

text \<open>
  Modelled from the spec: \<^verbatim>\<open>Voxel::addDataToCrfMats\<close>, defined in \<^verbatim>\<open>voxel.h\<close>, which is
  not among the sources. The specification's energy matrix builder gives every point of
  the segment one column, in the order of the segment's points: the column of the unary
  matrix replicates the segment's posterior vector, the columns of the two pairwise
  feature matrices hold the point's appearance and smoothness features (left to the
  environment), and the shared column counter advances by one.
\<close>

definition add_point ::
  "env \<Rightarrow> voxel \<Rightarrow> float list \<Rightarrow> float \<Rightarrow> float \<Rightarrow> float \<Rightarrow> nat \<Rightarrow> crf_mats \<Rightarrow> error + crf_mats" where
  "add_point e v probs color_sigma range_sigma smooth_sigma i M =
     (let j = crf_point_index M in
      if j < length (unary M) \<and> j < length (feature M) \<and> j < length (feature2 M) then
        Inr (M\<lparr>unary := (unary M)[j := probs],
               feature := (feature M)[j := appearance_feature e v i color_sigma range_sigma],
               feature2 := (feature2 M)[j := smoothnes_feature e v i smooth_sigma],
               crf_point_index := j + 1\<rparr>)
      else Inl OutOfRange)"

definition addDataToCrfMats ::
  "env \<Rightarrow> voxel \<Rightarrow> float list \<Rightarrow> float \<Rightarrow> float \<Rightarrow> float \<Rightarrow> crf_mats \<Rightarrow> error + crf_mats" where
  "addDataToCrfMats e v probs color_sigma range_sigma smooth_sigma M =
     for_each (add_point e v probs color_sigma range_sigma smooth_sigma) (getIndices v) M"

text \<open>
  \<^verbatim>\<open>
  for(auto v : voxels){
    const libf::DataPoint& feat = v.second->getFeatures();
    _forest->classLogPosterior(feat, probs);
    v.second->addDataToCrfMats(unary, feature, feature2, point_index, probs, ...);
  }
  \<close>
  The loop carries the matrices and the events.
\<close>

definition classify_voxel :: "env \<Rightarrow> int \<times> voxel \<Rightarrow> crf_mats \<times> event list \<Rightarrow> error + crf_mats \<times> event list" where
  "classify_voxel e kv s =
     (case kv of (k, v) \<Rightarrow> case s of (M, evs) \<Rightarrow>
        (let probs = classLogPosterior e (getFeatures v) in
         case addDataToCrfMats e v probs (appearance_color_sigma e) (appearance_range_sigma e)
                (smoothnes_range_sigma e) M of
           Inl err \<Rightarrow> Inl err
         | Inr M' \<Rightarrow> Inr (M', evs @ [ClassLogPosterior k, AddDataToCrfMats k])))"

definition new_matrix :: "env \<Rightarrow> nat \<Rightarrow> nat \<Rightarrow> matrix" where
  "new_matrix e rows cols = replicate cols (replicate rows (uninitialised e))"

definition build_energies :: "env \<Rightarrow> (int \<times> voxel) list \<Rightarrow> nat \<Rightarrow> error + crf_mats \<times> event list" where
  "build_energies e voxels N =
     for_each (classify_voxel e) voxels
       (\<lparr>unary = new_matrix e (labeler_C e) N, feature = new_matrix e 6 N,
         feature2 = new_matrix e 3 N, crf_point_index = 0\<rparr>, [])"

subsection \<open>Blackening the voxelized cloud, lines 153-158\<close>

definition blacken :: "cloud \<Rightarrow> cloud" where
  "blacken voxelized_cloud = map (\<lambda>p. p\<lparr>pr := 0, pg := 0, pb := 0\<rparr>) voxelized_cloud"

subsection \<open>The label decoder, lines 161-198\<close>

record decode_state =
  voxelized_cloud :: cloud
  result_labels :: "int list"
  result_prob :: "float list"
  label_frequencies :: "float list"
  point_index :: nat

text \<open>
  Lines 185-189, one round of
  \<^verbatim>\<open>
  for(int c = 0; c < _C; c++){
    result_prob[prob_idx++] = map(c,point_index);
    label_frequencies[c] += map(c,point_index);
  }
  \<close>
\<close>

definition prob_step ::
  "env \<Rightarrow> matrix \<Rightarrow> nat \<Rightarrow> nat \<Rightarrow> nat \<times> float list \<times> float list \<Rightarrow> nat \<times> float list \<times> float list" where
  "prob_step e m j c s =
     (case s of (prob_idx, rp, lf) \<Rightarrow>
        (prob_idx + 1, rp[prob_idx := mat m c j],
         lf[c := fadd (round_float e) (lf ! c) (mat m c j)]))"

text \<open>
  The body of the loop over a segment's indices, lines 170-190, for the point \<open>i\<close> of the
  voxelized cloud. \<^verbatim>\<open>point_index\<close> is an \<^verbatim>\<open>unsigned\<close>: the product \<^verbatim>\<open>_C*point_index\<close> of line
  185 is computed modulo \<open>2\<^sup>3\<^sup>2\<close> and stored in the \<^verbatim>\<open>int\<close> \<^verbatim>\<open>prob_idx\<close>, which the inner loop
  increments \<open>C\<close> times, and \<^verbatim>\<open>point_index++\<close> wraps. The condition is that every read and
  write of the body is in range and that \<^verbatim>\<open>prob_idx\<close> stays an \<^verbatim>\<open>int\<close>.
\<close>

definition decode_point :: "env \<Rightarrow> matrix \<Rightarrow> nat \<Rightarrow> decode_state \<Rightarrow> error + decode_state" where
  "decode_point e m i s =
     (let j = point_index s; C = labeler_C e; prob_idx0 = to_uint (C * j) in
      if j < length m \<and> 0 < length (m ! j) \<and> C \<le> length (m ! j)
         \<and> i < length (voxelized_cloud s)
         \<and> j < length (result_labels s)
         \<and> in_int (int prob_idx0 + int C)
         \<and> prob_idx0 + C \<le> length (result_prob s)
         \<and> C \<le> length (label_frequencies s)
      then
        (let max_label = decode_label m C j in
         case labelToRgb e (int max_label) of
           (cr, cg, cb) \<Rightarrow>
             (case fold (prob_step e m j) [0..<C] (prob_idx0, result_prob s, label_frequencies s) of
                (prob_idx, rp, lf) \<Rightarrow>
                  Inr \<lparr>voxelized_cloud =
                         (voxelized_cloud s)[i := (voxelized_cloud s ! i)\<lparr>pr := cr, pg := cg, pb := cb\<rparr>],
                       result_labels = (result_labels s)[j := int max_label],
                       result_prob = rp,
                       label_frequencies = lf,
                       point_index = to_uint (j + 1)\<rparr>))
      else Inl OutOfRange)"

definition decode_voxel :: "env \<Rightarrow> matrix \<Rightarrow> int \<times> voxel \<Rightarrow> decode_state \<Rightarrow> error + decode_state" where
  "decode_voxel e m kv s = for_each (decode_point e m) (getIndices (snd kv)) s"

text \<open>
  Lines 161-192. The size \<^verbatim>\<open>N*_C\<close> of \<^verbatim>\<open>result_prob\<close> is a product of two \<^verbatim>\<open>int\<close>s: the
  request stops when it does not fit.
\<close>

definition decode :: "env \<Rightarrow> matrix \<Rightarrow> (int \<times> voxel) list \<Rightarrow> nat \<Rightarrow> cloud \<Rightarrow> error + decode_state" where
  "decode e m voxels N cloud =
     (if in_int (int N * int (labeler_C e)) then
        for_each (decode_voxel e m) voxels
          \<lparr>voxelized_cloud = cloud,
           result_labels = replicate N 0,
           result_prob = replicate (N * labeler_C e) (Finite 0),
           label_frequencies = replicate (labeler_C e) (Finite 0),
           point_index = 0\<rparr>
      else Inl Overflow)"

text \<open>Lines 195-198: every frequency is divided by \<^verbatim>\<open>float(N)\<close>.\<close>

definition normalize_frequencies :: "env \<Rightarrow> int \<Rightarrow> float list \<Rightarrow> float list" where
  "normalize_frequencies e N freqs =
     map (\<lambda>f. fdiv (round_float e) f (float_of_int (round_float e) N)) freqs"

subsection \<open>The points of the response, lines 207-218\<close>

text \<open>\<^verbatim>\<open>res.points.resize(N)\<close>: new entries are zero.\<close>

definition resize :: "point32 list \<Rightarrow> nat \<Rightarrow> point32 list" where
  "resize pts n = take n pts @ replicate (n - length pts) \<lparr>qx = Finite 0, qy = Finite 0, qz = Finite 0\<rparr>"

text \<open>
  Lines 213-216 for the point \<open>i\<close> of the voxelized cloud; the second component is the
  \<^verbatim>\<open>unsigned\<close> \<^verbatim>\<open>point_index\<close>.
\<close>

definition copy_point :: "cloud \<Rightarrow> nat \<Rightarrow> point32 list \<times> nat \<Rightarrow> error + point32 list \<times> nat" where
  "copy_point cloud i s =
     (case s of (pts, j) \<Rightarrow>
        if j < length pts \<and> i < length cloud then
          Inr (pts[j := \<lparr>qx = px (cloud ! i), qy = py (cloud ! i), qz = pz (cloud ! i)\<rparr>],
               to_uint (j + 1))
        else Inl OutOfRange)"

definition copy_voxel :: "cloud \<Rightarrow> int \<times> voxel \<Rightarrow> point32 list \<times> nat \<Rightarrow> error + point32 list \<times> nat" where
  "copy_voxel cloud kv s = for_each (copy_point cloud) (getIndices (snd kv)) s"

definition copy_points :: "cloud \<Rightarrow> (int \<times> voxel) list \<Rightarrow> point32 list \<Rightarrow> error + point32 list \<times> nat" where
  "copy_points cloud voxels pts = for_each (copy_voxel cloud) voxels (pts, 0)"

subsection \<open>Storing and publishing, lines 220-221 and 394-425\<close>

definition publish_clouds :: "labeler \<Rightarrow> event" where
  "publish_clouds st = Publish (frame_id st) (fuse (stored_waypoints st))"

section \<open>The two handlers\<close>

text \<open>
  Everything after the acquisition, lines 93-224 of \<^verbatim>\<open>label_cloud\<close>. The state already
  holds the new frame id; \<open>cloud\<close> is the acquired cloud and \<open>origin\<close> its sensor origin.
\<close>

definition label_acquired ::
  "env \<Rightarrow> labeler \<Rightarrow> string \<Rightarrow> cloud \<Rightarrow> float \<times> float \<times> float \<Rightarrow> response
     \<Rightarrow> error + bool \<times> response \<times> labeler \<times> event list" where
  "label_acquired e st waypoint_id cloud origin res =
     (case extractVoxels e (convert_to_lab e cloud) origin of
        (voxels0, voxelized0) \<Rightarrow>
     (case filter_voxels e voxels0 0 of
        Inl err \<Rightarrow> Inl err
      | Inr (N, voxels, evs1) \<Rightarrow>
     if N < 0 then Inl NegativeSize else
     (case build_energies e voxels (nat N) of
        Inl err \<Rightarrow> Inl err
      | Inr (M, evs2) \<Rightarrow>
     (let crf_map = inference e (nat N) (labeler_C e) (unary M) (feature M, appearance_weight e)
                      (feature2 M, smoothnes_weight e) (crf_iterations e) in
      case decode e crf_map voxels (nat N) (blacken voxelized0) of
        Inl err \<Rightarrow> Inl err
      | Inr d \<Rightarrow>
     (let res1 = res\<lparr>res_index_to_label_name := getLabelNames e,
                      res_label := result_labels d,
                      res_label_probabilities := result_prob d,
                      res_label_frequencies := normalize_frequencies e N (label_frequencies d),
                      res_points := resize (res_points res) (nat N)\<rparr> in
      case copy_points (voxelized_cloud d) voxels (res_points res1) of
        Inl err \<Rightarrow> Inl err
      | Inr (pts, j) \<Rightarrow>
     (let st' = st\<lparr>stored_waypoints :=
                     map_assign (stored_waypoints st) waypoint_id (voxelized_cloud d)\<rparr> in
      Inr (True, res1\<lparr>res_points := pts\<rparr>, st',
           evs1 @ evs2 @ [Inference (nat N) (labeler_C e), publish_clouds st'])))))))"

text \<open>
  Lines 227-391 of \<^verbatim>\<open>label_cloud_plus\<close> after the acquisition: the same text as lines
  93-224, written out again as the source does.
\<close>

definition label_acquired_plus ::
  "env \<Rightarrow> labeler \<Rightarrow> string \<Rightarrow> cloud \<Rightarrow> float \<times> float \<times> float \<Rightarrow> response
     \<Rightarrow> error + bool \<times> response \<times> labeler \<times> event list" where
  "label_acquired_plus e st waypoint_id cloud origin res =
     (case extractVoxels e (convert_to_lab e cloud) origin of
        (voxels0, voxelized0) \<Rightarrow>
     (case filter_voxels e voxels0 0 of
        Inl err \<Rightarrow> Inl err
      | Inr (N, voxels, evs1) \<Rightarrow>
     if N < 0 then Inl NegativeSize else
     (case build_energies e voxels (nat N) of
        Inl err \<Rightarrow> Inl err
      | Inr (M, evs2) \<Rightarrow>
     (let crf_map = inference e (nat N) (labeler_C e) (unary M) (feature M, appearance_weight e)
                      (feature2 M, smoothnes_weight e) (crf_iterations e) in
      case decode e crf_map voxels (nat N) (blacken voxelized0) of
        Inl err \<Rightarrow> Inl err
      | Inr d \<Rightarrow>
     (let res1 = res\<lparr>res_index_to_label_name := getLabelNames e,
                      res_label := result_labels d,
                      res_label_probabilities := result_prob d,
                      res_label_frequencies := normalize_frequencies e N (label_frequencies d),
                      res_points := resize (res_points res) (nat N)\<rparr> in
      case copy_points (voxelized_cloud d) voxels (res_points res1) of
        Inl err \<Rightarrow> Inl err
      | Inr (pts, j) \<Rightarrow>
     (let st' = st\<lparr>stored_waypoints :=
                     map_assign (stored_waypoints st) waypoint_id (voxelized_cloud d)\<rparr> in
      Inr (True, res1\<lparr>res_points := pts\<rparr>, st',
           evs1 @ evs2 @ [Inference (nat N) (labeler_C e), publish_clouds st'])))))))"

text \<open>
  \<^verbatim>\<open>label_cloud\<close>, lines 63-225. The result is the returned flag, the response, the
  members and the events; a failed acquisition returns false at lines 86 and 90.
\<close>

definition label_cloud ::
  "env \<Rightarrow> labeler \<Rightarrow> string \<Rightarrow> response \<Rightarrow> error + bool \<times> response \<times> labeler \<times> event list" where
  "label_cloud e st waypoint_id res =
     (case cloud_service e waypoint_id 0.01 of
        Some (frame, cloud) \<Rightarrow>
          (case origin_service e waypoint_id of
             Some origin \<Rightarrow>
               label_acquired e (st\<lparr>frame_id := frame\<rparr>) waypoint_id cloud origin res
           | None \<Rightarrow> Inr (False, res, st, []))
      | None \<Rightarrow> Inr (False, res, st, []))"

text \<open>\<^verbatim>\<open>label_cloud_plus\<close>, lines 227-391: the request carries an instance number too.\<close>

definition label_cloud_plus ::
  "env \<Rightarrow> labeler \<Rightarrow> string \<Rightarrow> int \<Rightarrow> response \<Rightarrow> error + bool \<times> response \<times> labeler \<times> event list" where
  "label_cloud_plus e st waypoint_id instance_number res =
     (case cloud_service_plus e waypoint_id instance_number 0.01 of
        Some (frame, cloud) \<Rightarrow>
          (case origin_service e waypoint_id of
             Some origin \<Rightarrow>
               label_acquired_plus e (st\<lparr>frame_id := frame\<rparr>) waypoint_id cloud origin res
           | None \<Rightarrow> Inr (False, res, st, []))
      | None \<Rightarrow> Inr (False, res, st, []))"




section \<open>Sequences of store operations and example data\<close>

text \<open>
  The stored map after a sequence of \<^verbatim>\<open>_stored_waypoints[id] = cloud\<close> assignments,
  starting from the empty map of a new \<^verbatim>\<open>Labeler\<close>.
\<close>

definition store_all :: "(string \<times> cloud) list \<Rightarrow> (string \<times> cloud) list" where
  "store_all ops = foldl (\<lambda>m (k, c). map_assign m k c) [] ops"

text \<open>A probability matrix with one column, in which classes 1 and 2 tie for the maximum.\<close>

definition tie_matrix :: matrix where
  "tie_matrix = [[Finite 0.2, Finite 0.7, Finite 0.7]]"

section \<open>The column order, the retained segments and the collaborators' contracts\<close>

text \<open>
  The test of line 121, \<^verbatim>\<open>n >= _minimum_points\<close>, on an entry of the segment map.
\<close>

definition keep :: "env \<Rightarrow> int \<times> voxel \<Rightarrow> bool" where
  "keep e kv = (getSize (snd kv) \<ge> minimum_points e)"

text \<open>
  A segment after \<^verbatim>\<open>computeFeatures()\<close>.
\<close>

definition with_features :: "env \<Rightarrow> int \<times> voxel \<Rightarrow> int \<times> voxel" where
  "with_features e kv = (fst kv, (snd kv)\<lparr>getFeatures := computeFeatures e (snd kv)\<rparr>)"

text \<open>
  The segments that pass the test, each with its features computed, in the order of the
  map.
\<close>

definition retained :: "env \<Rightarrow> (int \<times> voxel) list \<Rightarrow> (int \<times> voxel) list" where
  "retained e voxels = map (with_features e) (filter (keep e) voxels)"

text \<open>
  The column order of a request: the point indices of the segments, segment by segment
  and inside a segment in the order of \<^verbatim>\<open>getIndices()\<close>. Entry \<open>j\<close> is the point of the
  voxelized cloud that the loops of lines 167-192 and 210-218 visit when \<^verbatim>\<open>point_index\<close> is
  \<open>j\<close>.
\<close>

definition column_points :: "(int \<times> voxel) list \<Rightarrow> nat list" where
  "column_points voxels = concat (map (\<lambda>kv. getIndices (snd kv)) voxels)"

text \<open>
  The segment that owns each column, in the same order.
\<close>

definition column_segments :: "(int \<times> voxel) list \<Rightarrow> (int \<times> voxel) list" where
  "column_segments voxels = concat (map (\<lambda>kv. map (\<lambda>i. kv) (getIndices (snd kv))) voxels)"

text \<open>
  Lines 178-182: a point with the colour of a label.
\<close>

definition recolor :: "env \<Rightarrow> int \<Rightarrow> point_xyzrgba \<Rightarrow> point_xyzrgba" where
  "recolor e l p = (case labelToRgb e l of (cr, cg, cb) \<Rightarrow> p\<lparr>pr := cr, pg := cg, pb := cb\<rparr>)"

text \<open>
  Lines 213-215: the coordinates of a cloud point, as an entry of \<^verbatim>\<open>res.points\<close>.
\<close>

definition coords :: "point_xyzrgba \<Rightarrow> point32" where
  "coords p = \<lparr>qx = px p, qy = py p, qz = pz p\<rparr>"

text \<open>
  The classifier and matrix events of the loop of lines 143-147 over a segment map.
\<close>

definition classifier_events :: "(int \<times> voxel) list \<Rightarrow> event list" where
  "classifier_events voxels = concat (map (\<lambda>kv. [ClassLogPosterior (fst kv), AddDataToCrfMats (fst kv)]) voxels)"

text \<open>
  Lines 203-207 with the points of lines 209-218: the response of a request whose decoder
  state is \<open>d\<close> and whose point array is \<open>pts\<close>.
\<close>

definition fill_response :: "env \<Rightarrow> int \<Rightarrow> decode_state \<Rightarrow> point32 list \<Rightarrow> response \<Rightarrow> response" where
  "fill_response e N d pts res =
     res\<lparr>res_index_to_label_name := getLabelNames e,
         res_label := result_labels d,
         res_label_probabilities := result_prob d,
         res_label_frequencies := normalize_frequencies e N (label_frequencies d),
         res_points := pts\<rparr>"

text \<open>
  What the node takes for granted about the segmentation it is given: the size of a
  segment is the number of its indices, and every index is a position in the voxelized
  cloud.
\<close>

definition segments_ok :: "(int \<times> voxel) list \<Rightarrow> cloud \<Rightarrow> bool" where
  "segments_ok voxels cloud =
     list_all (\<lambda>kv. getSize (snd kv) = int (length (getIndices (snd kv)))
                  \<and> list_all (\<lambda>i. i < length cloud) (getIndices (snd kv))) voxels"

text \<open>
  What the node takes for granted about the dense CRF: the matrix it returns has one
  column per point and one row per class.
\<close>

definition solver_ok :: "env \<Rightarrow> bool" where
  "solver_ok e = (\<forall>N C u f f2 it.
      length (inference e N C u f f2 it) = N
    \<and> list_all (\<lambda>col. length col = C) (inference e N C u f f2 it))"

text \<open>
  The keys of the segments that a list of events classifies, in order.
\<close>

fun classifier_calls :: "event list \<Rightarrow> int list" where
  "classifier_calls [] = []"
| "classifier_calls (ClassLogPosterior k # evs) = k # classifier_calls evs"
| "classifier_calls (ev # evs) = classifier_calls evs"

text \<open>
  The keys of the segments whose features a list of events computes, in order.
\<close>

fun feature_calls :: "event list \<Rightarrow> int list" where
  "feature_calls [] = []"
| "feature_calls (ComputeFeatures k # evs) = k # feature_calls evs"
| "feature_calls (ev # evs) = feature_calls evs"

text \<open>
  A decoder state whose label vector, and whose label vector times \<open>C\<close>, is shorter than
  \<open>2\<^sup>3\<^sup>1\<close>: while it is, no index of the decoder loop wraps.
\<close>

definition labels_fit :: "env \<Rightarrow> decode_state \<Rightarrow> bool" where
  "labels_fit e s =
     (length (result_labels s) < 2 ^ 31 \<and> labeler_C e * length (result_labels s) < 2 ^ 31)"

subsection \<open>Removing the discarded segments, and an example environment\<close>

text \<open>
  The environment whose segmentation hands over only the segments that pass the filter,
  with the same voxelized cloud.
\<close>

definition without_discarded :: "env \<Rightarrow> env" where
  "without_discarded e =
     e\<lparr>extractVoxels := \<lambda>cloud origin.
          (filter (\<lambda>kv. minimum_points e \<le> getSize (snd kv)) (fst (extractVoxels e cloud origin)),
           snd (extractVoxels e cloud origin))\<rparr>"

text \<open>
  An example: two waypoints. The cloud of waypoint \<open>A\<close> has seven points in two segments of
  five and two points; the cloud of waypoint \<open>B\<close> has two points in one segment. The
  minimum segment size is three and there are three classes. Every other waypoint is
  unknown to the services.
\<close>

definition demo_point :: "real \<Rightarrow> point_xyzrgba" where
  "demo_point xx = \<lparr>px = Finite xx, py = Finite 0, pz = Finite 0, pr = 10, pg = 20, pb = 30, pa = 255\<rparr>"

definition demo_cloud_A :: cloud where
  "demo_cloud_A = map demo_point [0, 1, 2, 3, 4, 5, 6]"

definition demo_cloud_B :: cloud where
  "demo_cloud_B = map demo_point [0, 1]"

definition demo_voxels_A :: "(int \<times> voxel) list" where
  "demo_voxels_A =
     [(0, \<lparr>getIndices = [0, 1, 2, 3, 4], getSize = 5, getFeatures = []\<rparr>),
      (1, \<lparr>getIndices = [5, 6], getSize = 2, getFeatures = []\<rparr>)]"

definition demo_voxels_B :: "(int \<times> voxel) list" where
  "demo_voxels_B = [(0, \<lparr>getIndices = [0, 1], getSize = 2, getFeatures = []\<rparr>)]"

definition demo_retained_A :: "(int \<times> voxel) list" where
  "demo_retained_A = [(0, \<lparr>getIndices = [0, 1, 2, 3, 4], getSize = 5, getFeatures = [Finite 5]\<rparr>)]"

definition demo_origin :: "float \<times> float \<times> float" where
  "demo_origin = (Finite 0, Finite 0, Finite 1)"

definition demo_env :: env where
  "demo_env =
     \<lparr>labeler_C = 3,
      minimum_points = 3,
      appearance_color_sigma = Finite 1,
      appearance_range_sigma = Finite 1,
      appearance_weight = Finite 1,
      smoothnes_range_sigma = Finite 1,
      smoothnes_weight = Finite 1,
      crf_iterations = 10,
      getLabelNames = [''floor'', ''wall'', ''chair''],
      labelToRgb = (\<lambda>l. if l = 0 then (255, 0, 0) else if l = 1 then (0, 255, 0) else (0, 0, 255)),
      cloud_service = (\<lambda>w res. if w = ''A'' then Some (''map'', demo_cloud_A)
                                else if w = ''B'' then Some (''map'', demo_cloud_B) else None),
      cloud_service_plus = (\<lambda>w i res. if w = ''A'' then Some (''map'', demo_cloud_A)
                                else if w = ''B'' then Some (''map'', demo_cloud_B) else None),
      origin_service = (\<lambda>w. if w = ''A'' \<or> w = ''B'' then Some demo_origin else None),
      cvtColor_BGR2Lab = (\<lambda>c. c),
      extractVoxels = (\<lambda>cloud origin. if length cloud = 7 then (demo_voxels_A, cloud)
                                        else (demo_voxels_B, cloud)),
      computeFeatures = (\<lambda>v. [Finite (of_int (getSize v))]),
      classLogPosterior = (\<lambda>f. [Finite 0.7, Finite 0.2, Finite 0.1]),
      appearance_feature = (\<lambda>v i cs rs. replicate 6 (Finite 0)),
      smoothnes_feature = (\<lambda>v i ss. replicate 3 (Finite 0)),
      inference = (\<lambda>N C u f f2 it.
         replicate N (take C ([Finite 0.7, Finite 0.2, Finite 0.1] @ replicate (C - 3) (Finite 0)))),
      uninitialised = NaN,
      round_float = Finite\<rparr>"

definition demo_labeler :: labeler where
  "demo_labeler = \<lparr>stored_waypoints = [], frame_id = []\<rparr>"

definition demo_response :: response where
  "demo_response = \<lparr>res_index_to_label_name = [], res_label = [], res_label_probabilities = [],
      res_label_frequencies = [], res_points = []\<rparr>"

section \<open>The label decoder picks the lowest index of the maximum\<close>

declare max_loop.simps [simp del]

lemma fgt_finite: "is_finite u \<Longrightarrow> is_finite w \<Longrightarrow> fgt u w = (fval u > fval w)"
  by (cases u; cases w) simp_all

lemma max_loop_spec:
  "(\<forall>c<C. is_finite (mat m c j)) \<Longrightarrow> max_label < c \<Longrightarrow> c \<le> C \<Longrightarrow>
   max_prob = mat m max_label j \<Longrightarrow>
   (\<forall>c'<c. fval (mat m c' j) \<le> fval max_prob) \<Longrightarrow>
   (\<forall>c'<max_label. fval (mat m c' j) < fval max_prob) \<Longrightarrow>
   max_loop m C j c max_label max_prob < C \<and>
   (\<forall>c'<C. fval (mat m c' j) \<le> fval (mat m (max_loop m C j c max_label max_prob) j)) \<and>
   (\<forall>c'<max_loop m C j c max_label max_prob.
       fval (mat m c' j) < fval (mat m (max_loop m C j c max_label max_prob) j))"
proof (induction m C j c max_label max_prob rule: max_loop.induct)
  case (1 m C j c max_label max_prob)
  show ?case
  proof (cases "c < C")
    case False
    with "1.prems" have "c = C" by simp
    with False "1.prems" show ?thesis by (simp add: max_loop.simps [of m C j C])
  next
    case inC: True
    have fin_c: "is_finite (mat m c j)" and fin_l: "is_finite max_prob"
      using "1.prems" inC by auto
    show ?thesis
    proof (cases "fgt (mat m c j) max_prob")
      case True
      then have gt: "fval (mat m c j) > fval max_prob"
        using fgt_finite [OF fin_c fin_l] by simp
      have below: "\<forall>c'<c + 1. fval (mat m c' j) \<le> fval (mat m c j)"
      proof (intro allI impI)
        fix c' assume "c' < c + 1"
        then consider "c' < c" | "c' = c" by linarith
        then show "fval (mat m c' j) \<le> fval (mat m c j)"
          using "1.prems"(5) gt by cases force+
      qed
      have strict: "\<forall>c'<c. fval (mat m c' j) < fval (mat m c j)"
        using "1.prems"(5) gt by force
      have "max_loop m C j (c + 1) c (mat m c j) < C \<and>
        (\<forall>c'<C. fval (mat m c' j) \<le> fval (mat m (max_loop m C j (c + 1) c (mat m c j)) j)) \<and>
        (\<forall>c'<max_loop m C j (c + 1) c (mat m c j).
           fval (mat m c' j) < fval (mat m (max_loop m C j (c + 1) c (mat m c j)) j))"
        using "1.IH"(1) [OF inC True "1.prems"(1) _ _ refl below strict] inC by simp
      then show ?thesis using inC True by (simp add: max_loop.simps [of m C j c])
    next
      case False
      then have le: "fval (mat m c j) \<le> fval max_prob"
        using fgt_finite [OF fin_c fin_l] by simp
      have below: "\<forall>c'<c + 1. fval (mat m c' j) \<le> fval max_prob"
      proof (intro allI impI)
        fix c' assume "c' < c + 1"
        then consider "c' < c" | "c' = c" by linarith
        then show "fval (mat m c' j) \<le> fval max_prob"
          using "1.prems"(5) le by cases force+
      qed
      have "max_loop m C j (c + 1) max_label max_prob < C \<and>
        (\<forall>c'<C. fval (mat m c' j) \<le> fval (mat m (max_loop m C j (c + 1) max_label max_prob) j)) \<and>
        (\<forall>c'<max_loop m C j (c + 1) max_label max_prob.
           fval (mat m c' j) < fval (mat m (max_loop m C j (c + 1) max_label max_prob) j))"
        using "1.IH"(2) [OF inC False "1.prems"(1) _ _ "1.prems"(4) below "1.prems"(6)]
          "1.prems"(2) inC by simp
      then show ?thesis using inC False by (simp add: max_loop.simps [of m C j c])
    qed
  qed
qed

text \<open>
  C3. For a column \<open>j\<close> of a probability matrix with \<open>C > 0\<close> classes and finite entries,
  the decoded hard label is a class index below \<open>C\<close> whose probability is at least that
  of every class, and every class of lower index has a strictly smaller probability: the
  label is the lowest class index that attains the maximum, so the smallest index wins a
  tie.
\<close>

theorem decode_label_lowest_argmax:
  assumes "0 < C" and "\<forall>c<C. is_finite (mat m c j)"
  shows "decode_label m C j < C
       \<and> (\<forall>c<C. fval (mat m c j) \<le> fval (mat m (decode_label m C j) j))
       \<and> (\<forall>c<decode_label m C j. fval (mat m c j) < fval (mat m (decode_label m C j) j))"
  unfolding decode_label_def
  using max_loop_spec [of C m j 0 1 "mat m 0 j"] assms by simp

lemma tie_matrix_finite: "\<forall>c<3. is_finite (mat tie_matrix c 0)"
  by (simp add: tie_matrix_def mat_def less_Suc_eq numeral_3_eq_3)

theorem decode_label_lowest_argmax_witness:
  "decode_label tie_matrix 3 0 < 3
   \<and> fval (mat tie_matrix 0 0) \<le> fval (mat tie_matrix (decode_label tie_matrix 3 0) 0)
   \<and> fval (mat tie_matrix 1 0) \<le> fval (mat tie_matrix (decode_label tie_matrix 3 0) 0)
   \<and> fval (mat tie_matrix 2 0) \<le> fval (mat tie_matrix (decode_label tie_matrix 3 0) 0)"
  using decode_label_lowest_argmax [of 3 tie_matrix 0] tie_matrix_finite by simp

lemma tie_matrix_label: "decode_label tie_matrix 3 0 = 1"
  by (simp add: decode_label_def tie_matrix_def mat_def max_loop.simps [of _ 3])

section \<open>The map store and the fused cloud\<close>

lemma map_of_map_assign: "map_of (map_assign m k v) = (map_of m)(k \<mapsto> v)"
  by (induction m k v rule: map_assign.induct) (auto simp: fun_upd_twist)



lemma map_assign_existing:
  "sorted_wrt (<) (map fst m) \<Longrightarrow> k \<in> set (map fst m) \<Longrightarrow> map fst (map_assign m k v) = map fst m"
  by (induction m k v rule: map_assign.induct) auto

lemma fuse_points_eq: "fuse_points cld fused = fused @ map to_xyzrgb cld"
  by (induction cld arbitrary: fused) auto

lemma fuse_clouds_eq: "fuse_clouds stored fused = fused @ concat (map (\<lambda>kc. map to_xyzrgb (snd kc)) stored)"
  by (induction stored fused rule: fuse_clouds.induct) (auto simp: fuse_points_eq)

lemma fuse_eq: "fuse stored = concat (map (\<lambda>kc. map to_xyzrgb (snd kc)) stored)"
  by (simp add: fuse_def fuse_clouds_eq)

lemma fused_size_eq: "fused_size stored sz = sz + int (sum_list (map (\<lambda>kc. length (snd kc)) stored))"
  by (induction stored sz rule: fused_size.induct) auto








text \<open>
  Two stores of three and four points fuse to seven points; storing two points again under
  the first identifier leaves six.
\<close>

lemma scenario_D:
  "length (fuse (store_all [(''A'', replicate 3 p), (''B'', replicate 4 p)])) = 7"
  "length (fuse (store_all [(''A'', replicate 3 p), (''B'', replicate 4 p), (''A'', replicate 2 p)])) = 6"
  by (simp_all add: store_all_def fuse_eq)

section \<open>The loops of a request\<close>

lemma for_each_append:
  "for_each body (xs @ ys) s =
     (case for_each body xs s of Inl err \<Rightarrow> Inl err | Inr s' \<Rightarrow> for_each body ys s')"
  by (induction xs arbitrary: s) (auto split: sum.splits)

lemma for_each_concat:
  "for_each (\<lambda>x. for_each body (g x)) xs s = for_each body (concat (map g xs)) s"
  by (induction xs arbitrary: s) (auto simp: for_each_append split: sum.splits)


lemma keep_iff: "keep e (k, v) = (minimum_points e \<le> getSize v)"
  by (simp add: keep_def)

lemma filter_voxels_Inr:
  "filter_voxels e voxels N0 = Inr (N, kept, evs) \<Longrightarrow>
     N = N0 + sum_list (map (\<lambda>kv. getSize (snd kv)) (filter (keep e) voxels))
   \<and> kept = retained e voxels
   \<and> evs = map (\<lambda>kv. ComputeFeatures (fst kv)) (filter (keep e) voxels)"
proof (induction voxels arbitrary: N0 N kept evs)
  case Nil
  then show ?case by (simp add: retained_def)
next
  case (Cons kv voxels)
  obtain k v where kv: "kv = (k, v)" by (cases kv)
  show ?case
  proof (cases "keep e kv")
    case False
    then have "filter_voxels e voxels N0 = Inr (N, kept, evs)"
      using Cons.prems by (simp add: kv keep_iff)
    from Cons.IH [OF this] False show ?thesis
      by (simp add: retained_def)
  next
    case True
    then obtain kept' evs' where
      rest: "filter_voxels e voxels (N0 + getSize v) = Inr (N, kept', evs')"
      and kept: "kept = (k, v\<lparr>getFeatures := computeFeatures e v\<rparr>) # kept'"
      and evs: "evs = ComputeFeatures k # evs'"
      using Cons.prems
      by (auto simp: kv keep_iff Let_def split: if_splits sum.splits)
    from Cons.IH [OF rest] True kept evs show ?thesis
      by (simp add: retained_def with_features_def kv)
  qed
qed

lemma filter_voxels_in_int:
  "filter_voxels e voxels N0 = Inr (N, kept, evs) \<Longrightarrow> in_int N0 \<Longrightarrow> in_int N"
proof (induction voxels arbitrary: N0 N kept evs)
  case Nil
  then show ?case by simp
next
  case (Cons kv voxels)
  obtain k v where kv: "kv = (k, v)" by (cases kv)
  show ?case
  proof (cases "keep e kv")
    case False
    then have "filter_voxels e voxels N0 = Inr (N, kept, evs)"
      using Cons.prems by (simp add: kv keep_iff)
    from Cons.IH [OF this Cons.prems(2)] show ?thesis .
  next
    case True
    then obtain kept' evs' where
      rest: "filter_voxels e voxels (N0 + getSize v) = Inr (N, kept', evs')"
      and fit: "in_int (N0 + getSize v)"
      using Cons.prems
      by (auto simp: kv keep_iff Let_def split: if_splits sum.splits)
    from Cons.IH [OF rest fit] show ?thesis .
  qed
qed

lemma filter_voxels_ok:
  "list_all (\<lambda>kv. 0 \<le> getSize (snd kv)) voxels \<Longrightarrow> 0 \<le> N0 \<Longrightarrow>
   N0 + sum_list (map (\<lambda>kv. getSize (snd kv)) (filter (keep e) voxels)) < 2 ^ 31 \<Longrightarrow>
   filter_voxels e voxels N0 =
     Inr (N0 + sum_list (map (\<lambda>kv. getSize (snd kv)) (filter (keep e) voxels)),
          retained e voxels,
          map (\<lambda>kv. ComputeFeatures (fst kv)) (filter (keep e) voxels))"
proof (induction voxels arbitrary: N0)
  case Nil
  then show ?case by (simp add: retained_def)
next
  case (Cons kv voxels)
  obtain k v where kv: "kv = (k, v)" by (cases kv)
  have nonneg: "list_all (\<lambda>kv. 0 \<le> getSize (snd kv)) voxels" and n0: "0 \<le> getSize v"
    using Cons.prems(1) by (simp_all add: kv)
  have rest_nonneg: "0 \<le> sum_list (map (\<lambda>kv. getSize (snd kv)) (filter (keep e) voxels))"
    using nonneg by (intro sum_list_nonneg) (auto simp: list_all_iff)
  show ?case
  proof (cases "keep e kv")
    case False
    with Cons.IH [OF nonneg Cons.prems(2)] Cons.prems(3) show ?thesis
      by (simp add: kv keep_iff retained_def)
  next
    case True
    have fit: "in_int (N0 + getSize v)"
      using Cons.prems(2,3) True n0 rest_nonneg by (simp add: in_int_def kv)
    have "filter_voxels e voxels (N0 + getSize v) =
      Inr (N0 + getSize v + sum_list (map (\<lambda>kv. getSize (snd kv)) (filter (keep e) voxels)),
          retained e voxels,
          map (\<lambda>kv. ComputeFeatures (fst kv)) (filter (keep e) voxels))"
      by (rule Cons.IH [OF nonneg]) (use Cons.prems(2,3) True n0 in \<open>simp_all add: kv\<close>)
    with True fit show ?thesis
      by (simp add: kv keep_iff retained_def with_features_def add.assoc)
  qed
qed

lemma filter_voxels_idem:
  "filter_voxels e (filter (keep e) voxels) N = filter_voxels e voxels N"
proof (induction voxels arbitrary: N)
  case Nil
  then show ?case by simp
next
  case (Cons kv voxels)
  obtain k v where kv: "kv = (k, v)" by (cases kv)
  show ?case
    using Cons.IH by (cases "keep e kv") (simp_all add: kv keep_iff Let_def)
qed

lemma fold_prob_step:
  "\<exists>rp' lf'. fold (prob_step e m j) [0..<n] (q, rp, lf) = (q + n, rp', lf')
      \<and> length rp' = length rp \<and> length lf' = length lf
      \<and> (\<forall>k<n. q + k < length rp \<longrightarrow> rp' ! (q + k) = mat m k j)
      \<and> (\<forall>x<q. rp' ! x = rp ! x)"
proof (induction n)
  case 0
  then show ?case by simp
next
  case (Suc n)
  then obtain rp' lf' where st: "fold (prob_step e m j) [0..<n] (q, rp, lf) = (q + n, rp', lf')"
    and len: "length rp' = length rp" "length lf' = length lf"
    and new: "\<forall>k<n. q + k < length rp \<longrightarrow> rp' ! (q + k) = mat m k j"
    and old: "\<forall>x<q. rp' ! x = rp ! x"
    by blast
  have step: "fold (prob_step e m j) [0..<Suc n] (q, rp, lf)
      = (q + Suc n, rp'[q + n := mat m n j], lf'[n := fadd (round_float e) (lf' ! n) (mat m n j)])"
    by (simp add: st prob_step_def)
  have "\<forall>k<Suc n. q + k < length rp \<longrightarrow> (rp'[q + n := mat m n j]) ! (q + k) = mat m k j"
  proof (intro allI impI)
    fix k assume k: "k < Suc n" and r: "q + k < length rp"
    show "(rp'[q + n := mat m n j]) ! (q + k) = mat m k j"
    proof (cases "k = n")
      case True
      then show ?thesis using r len by simp
    next
      case False
      then have "k < n" using k by simp
      then show ?thesis using new r False by simp
    qed
  qed
  moreover have "\<forall>x<q. (rp'[q + n := mat m n j]) ! x = rp ! x"
    using old by simp
  ultimately show ?case
    using step len by simp
qed

lemma decode_point_eq:
  assumes "labels_fit e s"
  shows "decode_point e m i s =
     (let j = point_index s; C = labeler_C e in
      if j < length m \<and> 0 < length (m ! j) \<and> C \<le> length (m ! j)
         \<and> i < length (voxelized_cloud s)
         \<and> j < length (result_labels s)
         \<and> C * j + C \<le> length (result_prob s)
         \<and> C \<le> length (label_frequencies s)
      then
        (let max_label = decode_label m C j in
         case labelToRgb e (int max_label) of
           (cr, cg, cb) \<Rightarrow>
             (case fold (prob_step e m j) [0..<C] (C * j, result_prob s, label_frequencies s) of
                (prob_idx, rp, lf) \<Rightarrow>
                  Inr \<lparr>voxelized_cloud =
                         (voxelized_cloud s)[i := (voxelized_cloud s ! i)\<lparr>pr := cr, pg := cg, pb := cb\<rparr>],
                       result_labels = (result_labels s)[j := int max_label],
                       result_prob = rp,
                       label_frequencies = lf,
                       point_index = j + 1\<rparr>))
      else Inl OutOfRange)"
proof (cases "point_index s < length (result_labels s)")
  case False
  then show ?thesis by (simp add: decode_point_def Let_def)
next
  case True
  let ?C = "labeler_C e" and ?j = "point_index s" and ?n = "length (result_labels s)"
  have n: "?n < 2 ^ 31" and cn: "?C * ?n < 2 ^ 31"
    using assms by (simp_all add: labels_fit_def)
  have "?C * ?j + ?C = ?C * (?j + 1)" by simp
  also have "\<dots> \<le> ?C * ?n" using True by (intro mult_le_mono2) simp
  finally have le: "?C * ?j + ?C \<le> ?C * ?n" .
  then have small: "?C * ?j + ?C < 2 ^ 31" using cn by linarith
  then have "?C * ?j < 2 ^ 32" by simp
  then have u1: "to_uint (?C * ?j) = ?C * ?j" by (simp add: to_uint_def)
  have "?j + 1 < 2 ^ 32" using True n by simp
  then have u2: "to_uint (?j + 1) = ?j + 1" by (simp add: to_uint_def)
  have "int (?C * ?j + ?C) < 2 ^ 31" using small by (simp only: of_nat_less_numeral_power_cancel_iff)
  then have hi: "int (?C * ?j) + int ?C < 2 ^ 31" by (simp only: of_nat_add)
  have lo: "- (2 ^ 31) \<le> int (?C * ?j) + int ?C"
    by (rule order_trans [of _ 0]) simp_all
  have fit: "in_int (int (?C * ?j) + int ?C)"
    unfolding in_int_def using lo hi by (rule conjI)
  show ?thesis
    unfolding decode_point_def Let_def u1 u2 using fit by simp
qed

lemma decode_point_fit:
  assumes "decode_point e m i s = Inr s'" and "labels_fit e s"
  shows "labels_fit e s'"
  using assms(1) unfolding decode_point_eq [OF assms(2)]
  using assms(2) by (auto simp: Let_def labels_fit_def split: if_splits prod.splits)

lemma decode_point_Inr:
  assumes "decode_point e m i s = Inr s'" and fit: "labels_fit e s"
  shows "point_index s' = point_index s + 1"
    and "point_index s < length (result_labels s)"
    and "i < length (voxelized_cloud s)"
    and "labeler_C e * point_index s + labeler_C e \<le> length (result_prob s)"
    and "result_labels s' = (result_labels s)[point_index s := int (decode_label m (labeler_C e) (point_index s))]"
    and "voxelized_cloud s' = (voxelized_cloud s)[i := recolor e (int (decode_label m (labeler_C e) (point_index s))) (voxelized_cloud s ! i)]"
    and "length (result_prob s') = length (result_prob s)"
    and "length (label_frequencies s') = length (label_frequencies s)"
    and "\<forall>c<labeler_C e. result_prob s' ! (labeler_C e * point_index s + c) = mat m c (point_index s)"
    and "\<forall>x<labeler_C e * point_index s. result_prob s' ! x = result_prob s ! x"
proof -
  let ?C = "labeler_C e" and ?j = "point_index s"
  obtain rp' lf' where f: "fold (prob_step e m ?j) [0..<?C] (?C * ?j, result_prob s, label_frequencies s) = (?C * ?j + ?C, rp', lf')"
    and len: "length rp' = length (result_prob s)" "length lf' = length (label_frequencies s)"
    and new: "\<forall>k<?C. ?C * ?j + k < length (result_prob s) \<longrightarrow> rp' ! (?C * ?j + k) = mat m k ?j"
    and old: "\<forall>x<?C * ?j. rp' ! x = result_prob s ! x"
    using fold_prob_step [of e m ?j ?C "?C * ?j" "result_prob s" "label_frequencies s"] by blast
  have cond: "?j < length m \<and> 0 < length (m ! ?j) \<and> ?C \<le> length (m ! ?j)
         \<and> i < length (voxelized_cloud s) \<and> ?j < length (result_labels s)
         \<and> ?C * ?j + ?C \<le> length (result_prob s) \<and> ?C \<le> length (label_frequencies s)"
    using assms(1) by (simp add: decode_point_eq [OF fit] Let_def split: if_splits)
  have s': "s' = \<lparr>voxelized_cloud =
                 (voxelized_cloud s)[i := recolor e (int (decode_label m ?C ?j)) (voxelized_cloud s ! i)],
               result_labels = (result_labels s)[?j := int (decode_label m ?C ?j)],
               result_prob = rp', label_frequencies = lf', point_index = ?j + 1\<rparr>"
    using assms(1) cond f by (simp add: decode_point_eq [OF fit] Let_def recolor_def split: prod.splits)
  show "point_index s' = point_index s + 1" by (simp add: s')
  show "point_index s < length (result_labels s)" using cond by simp
  show "i < length (voxelized_cloud s)" using cond by simp
  show "?C * ?j + ?C \<le> length (result_prob s)" using cond by simp
  show "result_labels s' = (result_labels s)[?j := int (decode_label m ?C ?j)]" by (simp add: s')
  show "voxelized_cloud s' = (voxelized_cloud s)[i := recolor e (int (decode_label m ?C ?j)) (voxelized_cloud s ! i)]"
    by (simp add: s')
  show "length (result_prob s') = length (result_prob s)" by (simp add: s' len)
  show "length (label_frequencies s') = length (label_frequencies s)" by (simp add: s' len)
  show "\<forall>c<?C. result_prob s' ! (?C * ?j + c) = mat m c ?j"
    using new cond by (simp add: s')
  show "\<forall>x<?C * ?j. result_prob s' ! x = result_prob s ! x"
    using old by (simp add: s')
qed

lemma decode_point_ok:
  assumes "point_index s < length m" "0 < length (m ! point_index s)"
    "labeler_C e \<le> length (m ! point_index s)" "i < length (voxelized_cloud s)"
    "point_index s < length (result_labels s)"
    "labeler_C e * point_index s + labeler_C e \<le> length (result_prob s)"
    "labeler_C e \<le> length (label_frequencies s)"
    and fit: "labels_fit e s"
  shows "\<exists>s'. decode_point e m i s = Inr s'"
  using assms by (simp add: decode_point_eq [OF fit] Let_def split: prod.splits)

lemma decode_loop_index:
  "for_each (decode_point e m) idx s = Inr s' \<Longrightarrow> labels_fit e s \<Longrightarrow>
     point_index s' = point_index s + length idx
   \<and> length (result_labels s') = length (result_labels s)
   \<and> length (result_prob s') = length (result_prob s)
   \<and> length (label_frequencies s') = length (label_frequencies s)
   \<and> length (voxelized_cloud s') = length (voxelized_cloud s)"
proof (induction idx arbitrary: s)
  case Nil
  then show ?case by simp
next
  case (Cons i idx)
  then obtain s1 where s1: "decode_point e m i s = Inr s1" and rest: "for_each (decode_point e m) idx s1 = Inr s'"
    by (auto split: sum.splits)
  have fit: "labels_fit e s" using Cons.prems by simp
  have fit1: "labels_fit e s1" by (rule decode_point_fit [OF s1 fit])
  show ?case
    using Cons.IH [OF rest fit1] decode_point_Inr [OF s1 fit] by simp
qed

lemma decode_loop_labels:
  "for_each (decode_point e m) idx s = Inr s' \<Longrightarrow> labels_fit e s \<Longrightarrow>
     (\<forall>j<point_index s. result_labels s' ! j = result_labels s ! j)
   \<and> (\<forall>n<length idx. result_labels s' ! (point_index s + n)
         = int (decode_label m (labeler_C e) (point_index s + n)))"
proof (induction idx arbitrary: s)
  case Nil
  then show ?case by simp
next
  case (Cons i idx)
  then obtain s1 where s1: "decode_point e m i s = Inr s1" and rest: "for_each (decode_point e m) idx s1 = Inr s'"
    by (auto split: sum.splits)
  have fit: "labels_fit e s" using Cons.prems by simp
  have fit1: "labels_fit e s1" by (rule decode_point_fit [OF s1 fit])
  note step = decode_point_Inr [OF s1 fit]
  note ih = Cons.IH [OF rest fit1]
  have old: "\<forall>j<point_index s. result_labels s' ! j = result_labels s ! j"
    using ih step(1,5) by simp
  have new: "\<forall>n<length (i # idx). result_labels s' ! (point_index s + n)
         = int (decode_label m (labeler_C e) (point_index s + n))"
  proof (intro allI impI)
    fix n assume n: "n < length (i # idx)"
    show "result_labels s' ! (point_index s + n) = int (decode_label m (labeler_C e) (point_index s + n))"
    proof (cases n)
      case 0
      have "result_labels s' ! point_index s = result_labels s1 ! point_index s"
        using ih step(1) by simp
      then show ?thesis using 0 step(2,5) by simp
    next
      case (Suc n')
      then have "n' < length idx" using n by simp
      then show ?thesis using ih step(1) Suc by simp
    qed
  qed
  from old new show ?case by blast
qed

lemma decode_loop_prob:
  "for_each (decode_point e m) idx s = Inr s' \<Longrightarrow> labels_fit e s \<Longrightarrow>
     (\<forall>x<labeler_C e * point_index s. result_prob s' ! x = result_prob s ! x)
   \<and> (\<forall>n<length idx. \<forall>c<labeler_C e. result_prob s' ! (labeler_C e * (point_index s + n) + c)
         = mat m c (point_index s + n))"
proof (induction idx arbitrary: s)
  case Nil
  then show ?case by simp
next
  case (Cons i idx)
  then obtain s1 where s1: "decode_point e m i s = Inr s1" and rest: "for_each (decode_point e m) idx s1 = Inr s'"
    by (auto split: sum.splits)
  have fit: "labels_fit e s" using Cons.prems by simp
  have fit1: "labels_fit e s1" by (rule decode_point_fit [OF s1 fit])
  note step = decode_point_Inr [OF s1 fit]
  note ih = Cons.IH [OF rest fit1]
  let ?C = "labeler_C e" and ?p = "point_index s"
  have p1: "point_index s1 = ?p + 1" by (rule step(1))
  have old1: "\<forall>x<?C * (?p + 1). result_prob s' ! x = result_prob s1 ! x"
    using ih p1 by simp
  have old: "\<forall>x<?C * ?p. result_prob s' ! x = result_prob s ! x"
    using old1 step(10) by simp
  have new: "\<forall>n<length (i # idx). \<forall>c<?C. result_prob s' ! (?C * (?p + n) + c) = mat m c (?p + n)"
  proof (intro allI impI)
    fix n c assume n: "n < length (i # idx)" and c: "c < ?C"
    show "result_prob s' ! (?C * (?p + n) + c) = mat m c (?p + n)"
    proof (cases n)
      case 0
      have "?C * ?p + c < ?C * (?p + 1)" using c by simp
      then have "result_prob s' ! (?C * ?p + c) = result_prob s1 ! (?C * ?p + c)"
        using old1 by blast
      then show ?thesis using 0 step(9) c by simp
    next
      case (Suc n')
      then have "n' < length idx" using n by simp
      then have "result_prob s' ! (?C * (point_index s1 + n') + c) = mat m c (point_index s1 + n')"
        using ih c by blast
      then show ?thesis using Suc p1 by simp
    qed
  qed
  from old new show ?case by blast
qed

lemma recolor_fields [simp]:
  "px (recolor e l p) = px p" "py (recolor e l p) = py p" "pz (recolor e l p) = pz p"
  "pa (recolor e l p) = pa p"
  "(pr (recolor e l p), pg (recolor e l p), pb (recolor e l p)) = labelToRgb e l"
  by (simp_all add: recolor_def split: prod.splits)

lemma decode_loop_cloud:
  "for_each (decode_point e m) idx s = Inr s' \<Longrightarrow> labels_fit e s \<Longrightarrow>
     (\<forall>i<length (voxelized_cloud s).
        px (voxelized_cloud s' ! i) = px (voxelized_cloud s ! i)
      \<and> py (voxelized_cloud s' ! i) = py (voxelized_cloud s ! i)
      \<and> pz (voxelized_cloud s' ! i) = pz (voxelized_cloud s ! i)
      \<and> pa (voxelized_cloud s' ! i) = pa (voxelized_cloud s ! i)
      \<and> (i \<notin> set idx \<longrightarrow> voxelized_cloud s' ! i = voxelized_cloud s ! i))"
proof (induction idx arbitrary: s)
  case Nil
  then show ?case by simp
next
  case (Cons i0 idx)
  then obtain s1 where s1: "decode_point e m i0 s = Inr s1" and rest: "for_each (decode_point e m) idx s1 = Inr s'"
    by (auto split: sum.splits)
  have fit: "labels_fit e s" using Cons.prems by simp
  have fit1: "labels_fit e s1" by (rule decode_point_fit [OF s1 fit])
  note step = decode_point_Inr [OF s1 fit]
  note ih = Cons.IH [OF rest fit1]
  have len: "length (voxelized_cloud s1) = length (voxelized_cloud s)"
    using step(6) by simp
  show ?case
  proof (intro allI impI)
    fix i assume i: "i < length (voxelized_cloud s)"
    then have i1: "i < length (voxelized_cloud s1)" using len by simp
    have a: "px (voxelized_cloud s1 ! i) = px (voxelized_cloud s ! i)
      \<and> py (voxelized_cloud s1 ! i) = py (voxelized_cloud s ! i)
      \<and> pz (voxelized_cloud s1 ! i) = pz (voxelized_cloud s ! i)
      \<and> pa (voxelized_cloud s1 ! i) = pa (voxelized_cloud s ! i)
      \<and> (i \<noteq> i0 \<longrightarrow> voxelized_cloud s1 ! i = voxelized_cloud s ! i)"
      using step(6) i by (cases "i = i0") simp_all
    show "px (voxelized_cloud s' ! i) = px (voxelized_cloud s ! i)
      \<and> py (voxelized_cloud s' ! i) = py (voxelized_cloud s ! i)
      \<and> pz (voxelized_cloud s' ! i) = pz (voxelized_cloud s ! i)
      \<and> pa (voxelized_cloud s' ! i) = pa (voxelized_cloud s ! i)
      \<and> (i \<notin> set (i0 # idx) \<longrightarrow> voxelized_cloud s' ! i = voxelized_cloud s ! i)"
      using ih i1 a by simp
  qed
qed

lemma decode_loop_color:
  "for_each (decode_point e m) idx s = Inr s' \<Longrightarrow> labels_fit e s \<Longrightarrow> distinct idx \<Longrightarrow>
     (\<forall>n<length idx.
        (pr (voxelized_cloud s' ! (idx ! n)), pg (voxelized_cloud s' ! (idx ! n)),
         pb (voxelized_cloud s' ! (idx ! n)))
        = labelToRgb e (int (decode_label m (labeler_C e) (point_index s + n))))"
proof (induction idx arbitrary: s)
  case Nil
  then show ?case by simp
next
  case (Cons i0 idx)
  then obtain s1 where s1: "decode_point e m i0 s = Inr s1" and rest: "for_each (decode_point e m) idx s1 = Inr s'"
    by (auto split: sum.splits)
  have fit: "labels_fit e s" using Cons.prems by simp
  have fit1: "labels_fit e s1" by (rule decode_point_fit [OF s1 fit])
  note step = decode_point_Inr [OF s1 fit]
  from Cons.prems have d: "distinct idx" and notin: "i0 \<notin> set idx" by simp_all
  note ih = Cons.IH [OF rest fit1 d]
  have len: "length (voxelized_cloud s1) = length (voxelized_cloud s)"
    using step(6) by simp
  show ?case
  proof (intro allI impI)
    fix n assume n: "n < length (i0 # idx)"
    show "(pr (voxelized_cloud s' ! ((i0 # idx) ! n)), pg (voxelized_cloud s' ! ((i0 # idx) ! n)),
         pb (voxelized_cloud s' ! ((i0 # idx) ! n)))
        = labelToRgb e (int (decode_label m (labeler_C e) (point_index s + n)))"
    proof (cases n)
      case 0
      have "voxelized_cloud s' ! i0 = voxelized_cloud s1 ! i0"
        using decode_loop_cloud [OF rest fit1] notin step(3) len by simp
      then show ?thesis using 0 step(3,6) by simp
    next
      case (Suc n')
      then have "n' < length idx" using n by simp
      then show ?thesis using ih step(1) Suc by simp
    qed
  qed
qed

lemma decode_loop_ok:
  "point_index s + length idx \<le> length m \<Longrightarrow>
   (\<forall>col\<in>set m. 0 < length col \<and> labeler_C e \<le> length col) \<Longrightarrow>
   (\<forall>i\<in>set idx. i < length (voxelized_cloud s)) \<Longrightarrow>
   point_index s + length idx \<le> length (result_labels s) \<Longrightarrow>
   labeler_C e * (point_index s + length idx) \<le> length (result_prob s) \<Longrightarrow>
   labeler_C e \<le> length (label_frequencies s) \<Longrightarrow>
   labels_fit e s \<Longrightarrow>
   \<exists>s'. for_each (decode_point e m) idx s = Inr s'"
proof (induction idx arbitrary: s)
  case Nil
  then show ?case by simp
next
  case (Cons i idx)
  let ?C = "labeler_C e" and ?p = "point_index s"
  have p: "?p < length m" using Cons.prems(1) by simp
  then have col: "0 < length (m ! ?p) \<and> ?C \<le> length (m ! ?p)"
    using Cons.prems(2) by simp
  have "?C * ?p + ?C \<le> ?C * (?p + length (i # idx))"
    by (simp add: algebra_simps)
  then have pr: "?C * ?p + ?C \<le> length (result_prob s)"
    using Cons.prems(5) by linarith
  have fit: "labels_fit e s" by (rule Cons.prems(7))
  obtain s1 where s1: "decode_point e m i s = Inr s1"
    using decode_point_ok [of s m e i] p col pr Cons.prems by auto
  have fit1: "labels_fit e s1" by (rule decode_point_fit [OF s1 fit])
  note step = decode_point_Inr [OF s1 fit]
  have "\<exists>s'. for_each (decode_point e m) idx s1 = Inr s'"
  proof (rule Cons.IH)
    show "point_index s1 + length idx \<le> length m" using step(1) Cons.prems(1) by simp
    show "\<forall>col\<in>set m. 0 < length col \<and> ?C \<le> length col" by (rule Cons.prems(2))
    show "\<forall>i\<in>set idx. i < length (voxelized_cloud s1)" using step(6) Cons.prems(3) by simp
    show "point_index s1 + length idx \<le> length (result_labels s1)"
      using step(1,5) Cons.prems(4) by simp
    show "?C * (point_index s1 + length idx) \<le> length (result_prob s1)"
      using step(1,7) Cons.prems(5) by simp
    show "?C \<le> length (label_frequencies s1)" using step(8) Cons.prems(6) by simp
    show "labels_fit e s1" by (rule fit1)
  qed
  then show ?case using s1 by simp
qed


lemma copy_point_eq:
  "length pts < 2 ^ 32 \<Longrightarrow>
   copy_point cloud i (pts, j) =
     (if j < length pts \<and> i < length cloud then Inr (pts[j := coords (cloud ! i)], j + 1)
      else Inl OutOfRange)"
  by (simp add: copy_point_def coords_def to_uint_def)

lemma copy_loop:
  "for_each (copy_point cloud) idx (pts, j) = Inr (pts', j') \<Longrightarrow> length pts < 2 ^ 32 \<Longrightarrow>
     j' = j + length idx \<and> length pts' = length pts
   \<and> (\<forall>q<j. pts' ! q = pts ! q)
   \<and> (\<forall>n<length idx. pts' ! (j + n) = coords (cloud ! (idx ! n)))"
proof (induction idx arbitrary: pts j)
  case Nil
  then show ?case by simp
next
  case (Cons i idx)
  from Cons.prems have ok: "j < length pts" "i < length cloud"
    and rest: "for_each (copy_point cloud) idx (pts[j := coords (cloud ! i)], j + 1) = Inr (pts', j')"
    by (auto simp: copy_point_eq split: if_splits)
  have len: "length (pts[j := coords (cloud ! i)]) < 2 ^ 32" using Cons.prems(2) by simp
  note ih = Cons.IH [OF rest len]
  have new: "\<forall>n<length (i # idx). pts' ! (j + n) = coords (cloud ! ((i # idx) ! n))"
  proof (intro allI impI)
    fix n assume n: "n < length (i # idx)"
    show "pts' ! (j + n) = coords (cloud ! ((i # idx) ! n))"
    proof (cases n)
      case 0
      then show ?thesis using ih ok by simp
    next
      case (Suc n')
      then have "n' < length idx" using n by simp
      then show ?thesis using ih Suc by simp
    qed
  qed
  have "\<forall>q<j. pts' ! q = pts ! q" using ih by simp
  with new ih show ?case by simp
qed

lemma copy_loop_ok:
  "j + length idx \<le> length pts \<Longrightarrow> \<forall>i\<in>set idx. i < length cloud \<Longrightarrow>
   length pts < 2 ^ 32 \<Longrightarrow>
   \<exists>pts'. for_each (copy_point cloud) idx (pts, j) = Inr (pts', j + length idx)"
proof (induction idx arbitrary: pts j)
  case Nil
  then show ?case by simp
next
  case (Cons i idx)
  have "\<exists>pts'. for_each (copy_point cloud) idx (pts[j := coords (cloud ! i)], j + 1)
           = Inr (pts', j + 1 + length idx)"
    by (rule Cons.IH) (use Cons.prems in simp_all)
  then show ?case using Cons.prems by (simp add: copy_point_eq)
qed

lemma add_point_eq:
  "add_point e v probs cs rs ss i M =
     (if crf_point_index M < length (unary M) \<and> crf_point_index M < length (feature M)
         \<and> crf_point_index M < length (feature2 M)
      then Inr (M\<lparr>unary := (unary M)[crf_point_index M := probs],
               feature := (feature M)[crf_point_index M := appearance_feature e v i cs rs],
               feature2 := (feature2 M)[crf_point_index M := smoothnes_feature e v i ss],
               crf_point_index := crf_point_index M + 1\<rparr>)
      else Inl OutOfRange)"
  by (simp add: add_point_def Let_def)

lemma classify_voxel_eq:
  "classify_voxel e (k, v) (M, evs) =
     (case for_each (add_point e v (classLogPosterior e (getFeatures v)) (appearance_color_sigma e)
             (appearance_range_sigma e) (smoothnes_range_sigma e)) (getIndices v) M of
        Inl err \<Rightarrow> Inl err
      | Inr M' \<Rightarrow> Inr (M', evs @ [ClassLogPosterior k, AddDataToCrfMats k]))"
  by (simp add: classify_voxel_def addDataToCrfMats_def Let_def)

lemma add_point_loop:
  "for_each (add_point e v probs cs rs ss) idx M = Inr M' \<Longrightarrow>
     crf_point_index M' = crf_point_index M + length idx
   \<and> length (unary M') = length (unary M)
   \<and> length (feature M') = length (feature M)
   \<and> length (feature2 M') = length (feature2 M)
   \<and> (\<forall>j<crf_point_index M. unary M' ! j = unary M ! j)
   \<and> (\<forall>n<length idx. unary M' ! (crf_point_index M + n) = probs)"
proof (induction idx arbitrary: M)
  case Nil
  then show ?case by simp
next
  case (Cons i idx)
  then obtain M1 where M1: "add_point e v probs cs rs ss i M = Inr M1"
    and rest: "for_each (add_point e v probs cs rs ss) idx M1 = Inr M'"
    by (auto split: sum.splits)
  let ?p = "crf_point_index M"
  from M1 have ok: "?p < length (unary M)"
    and u1: "unary M1 = (unary M)[?p := probs]"
    and p1: "crf_point_index M1 = ?p + 1"
    and l1: "length (feature M1) = length (feature M)" "length (feature2 M1) = length (feature2 M)"
    by (auto simp: add_point_eq split: if_splits)
  note ih = Cons.IH [OF rest]
  have new: "\<forall>n<length (i # idx). unary M' ! (?p + n) = probs"
  proof (intro allI impI)
    fix n assume n: "n < length (i # idx)"
    show "unary M' ! (?p + n) = probs"
    proof (cases n)
      case 0
      then show ?thesis using ih ok u1 p1 by simp
    next
      case (Suc n')
      then have "n' < length idx" using n by simp
      then show ?thesis using ih Suc p1 by simp
    qed
  qed
  have "\<forall>j<?p. unary M' ! j = unary M ! j" using ih u1 p1 by simp
  with new ih u1 p1 l1 show ?case by simp
qed

lemma add_point_loop_ok:
  "crf_point_index M + length idx \<le> length (unary M) \<Longrightarrow>
   crf_point_index M + length idx \<le> length (feature M) \<Longrightarrow>
   crf_point_index M + length idx \<le> length (feature2 M) \<Longrightarrow>
   \<exists>M'. for_each (add_point e v probs cs rs ss) idx M = Inr M'"
proof (induction idx arbitrary: M)
  case Nil
  then show ?case by simp
next
  case (Cons i idx)
  let ?M1 = "M\<lparr>unary := (unary M)[crf_point_index M := probs],
               feature := (feature M)[crf_point_index M := appearance_feature e v i cs rs],
               feature2 := (feature2 M)[crf_point_index M := smoothnes_feature e v i ss],
               crf_point_index := crf_point_index M + 1\<rparr>"
  have step: "add_point e v probs cs rs ss i M = Inr ?M1"
    using Cons.prems by (simp add: add_point_eq)
  have "\<exists>M'. for_each (add_point e v probs cs rs ss) idx ?M1 = Inr M'"
    by (rule Cons.IH) (use Cons.prems in simp_all)
  then show ?case using step by simp
qed

lemma column_points_Cons:
  "column_points (kv # voxels) = getIndices (snd kv) @ column_points voxels"
  by (simp add: column_points_def)

lemma column_segments_Cons:
  "column_segments (kv # voxels) = replicate (length (getIndices (snd kv))) kv @ column_segments voxels"
  by (simp add: column_segments_def map_replicate_const)

lemma length_column_segments: "length (column_segments voxels) = length (column_points voxels)"
  by (induction voxels) (simp_all add: column_points_Cons column_segments_Cons, simp_all add: column_points_def column_segments_def)

lemma classify_loop:
  "for_each (classify_voxel e) voxels (M, evs) = Inr (M', evs') \<Longrightarrow>
     crf_point_index M' = crf_point_index M + length (column_points voxels)
   \<and> length (unary M') = length (unary M)
   \<and> length (feature M') = length (feature M)
   \<and> length (feature2 M') = length (feature2 M)
   \<and> (\<forall>j<crf_point_index M. unary M' ! j = unary M ! j)
   \<and> (\<forall>n<length (column_points voxels). unary M' ! (crf_point_index M + n)
         = classLogPosterior e (getFeatures (snd (column_segments voxels ! n))))
   \<and> evs' = evs @ classifier_events voxels"
proof (induction voxels arbitrary: M evs)
  case Nil
  then show ?case by (simp add: column_points_def classifier_events_def)
next
  case (Cons kv voxels)
  obtain k v where kv: "kv = (k, v)" by (cases kv)
  let ?probs = "classLogPosterior e (getFeatures v)"
  let ?p = "crf_point_index M" and ?n1 = "length (getIndices v)"
  from Cons.prems obtain M1 where
    M1: "for_each (add_point e v ?probs (appearance_color_sigma e) (appearance_range_sigma e)
           (smoothnes_range_sigma e)) (getIndices v) M = Inr M1"
    and rest: "for_each (classify_voxel e) voxels (M1, evs @ [ClassLogPosterior k, AddDataToCrfMats k]) = Inr (M', evs')"
    by (auto simp: kv classify_voxel_eq split: sum.splits)
  note a = add_point_loop [OF M1]
  note ih = Cons.IH [OF rest]
  have p1: "crf_point_index M1 = ?p + ?n1" using a by simp
  have old: "\<forall>j<?p. unary M' ! j = unary M ! j" using ih a by simp
  have new: "\<forall>n<length (column_points (kv # voxels)). unary M' ! (?p + n)
         = classLogPosterior e (getFeatures (snd (column_segments (kv # voxels) ! n)))"
  proof (intro allI impI)
    fix n assume n: "n < length (column_points (kv # voxels))"
    show "unary M' ! (?p + n) = classLogPosterior e (getFeatures (snd (column_segments (kv # voxels) ! n)))"
    proof (cases "n < ?n1")
      case True
      have "unary M' ! (?p + n) = unary M1 ! (?p + n)" using ih p1 True by simp
      also have "\<dots> = ?probs" using a True by simp
      finally show ?thesis using True by (simp add: column_segments_Cons kv nth_append)
    next
      case False
      then obtain n' where n': "n = ?n1 + n'" using le_Suc_ex [of ?n1 n] by auto
      then have "n' < length (column_points voxels)" using n by (simp add: column_points_Cons kv)
      then have "unary M' ! (crf_point_index M1 + n')
         = classLogPosterior e (getFeatures (snd (column_segments voxels ! n')))"
        using ih by blast
      then show ?thesis using n' p1 by (simp add: column_segments_Cons kv nth_append add.assoc)
    qed
  qed
  have "evs' = evs @ classifier_events (kv # voxels)"
    using ih by (simp add: classifier_events_def kv)
  with old new ih a show ?case by (simp add: column_points_Cons kv)
qed

lemma classify_loop_ok:
  "crf_point_index M + length (column_points voxels) \<le> length (unary M) \<Longrightarrow>
   crf_point_index M + length (column_points voxels) \<le> length (feature M) \<Longrightarrow>
   crf_point_index M + length (column_points voxels) \<le> length (feature2 M) \<Longrightarrow>
   \<exists>M' evs'. for_each (classify_voxel e) voxels (M, evs) = Inr (M', evs')"
proof (induction voxels arbitrary: M evs)
  case Nil
  then show ?case by simp
next
  case (Cons kv voxels)
  obtain k v where kv: "kv = (k, v)" by (cases kv)
  let ?probs = "classLogPosterior e (getFeatures v)"
  have "\<exists>M1. for_each (add_point e v ?probs (appearance_color_sigma e) (appearance_range_sigma e)
           (smoothnes_range_sigma e)) (getIndices v) M = Inr M1"
    by (rule add_point_loop_ok) (use Cons.prems in \<open>simp_all add: column_points_Cons kv\<close>)
  then obtain M1 where M1: "for_each (add_point e v ?probs (appearance_color_sigma e) (appearance_range_sigma e)
           (smoothnes_range_sigma e)) (getIndices v) M = Inr M1" by blast
  note a = add_point_loop [OF M1]
  have "\<exists>M' evs'. for_each (classify_voxel e) voxels (M1, evs @ [ClassLogPosterior k, AddDataToCrfMats k]) = Inr (M', evs')"
    by (rule Cons.IH) (use Cons.prems a in \<open>simp_all add: column_points_Cons kv\<close>)
  then show ?case using M1 by (simp add: kv classify_voxel_eq)
qed

lemma column_points_retained:
  "column_points (retained e voxels) = column_points (filter (keep e) voxels)"
  by (simp add: column_points_def retained_def with_features_def comp_def)

lemma segments_ok_count:
  "segments_ok voxels cloud \<Longrightarrow>
   sum_list (map (\<lambda>kv. getSize (snd kv)) (filter (keep e) voxels))
     = int (length (column_points (retained e voxels)))"
  unfolding column_points_retained
  by (induction voxels) (auto simp: segments_ok_def column_points_def)

lemma segments_ok_range:
  "segments_ok voxels cloud \<Longrightarrow> \<forall>i\<in>set (column_points (retained e voxels)). i < length cloud"
  unfolding column_points_retained
  by (induction voxels) (auto simp: segments_ok_def column_points_def list_all_iff)


lemma segments_ok_nonneg:
  "segments_ok voxels cloud \<Longrightarrow> list_all (\<lambda>kv. 0 \<le> getSize (snd kv)) voxels"
  by (simp add: segments_ok_def list_all_iff)

lemma filter_voxels_segments:
  assumes "segments_ok voxels0 cloud0"
    and "int (length (column_points (retained e voxels0))) < 2 ^ 31"
  shows "filter_voxels e voxels0 0 =
     Inr (int (length (column_points (retained e voxels0))), retained e voxels0,
          map (\<lambda>kv. ComputeFeatures (fst kv)) (filter (keep e) voxels0))"
  using filter_voxels_ok [OF segments_ok_nonneg [OF assms(1)], of 0 e] assms(2)
  by (simp add: segments_ok_count [OF assms(1)])

lemma length_resize: "length (resize pts n) = n"
  by (simp add: resize_def)

lemma decode_eq:
  "decode e m voxels N cloud =
     (if in_int (int N * int (labeler_C e)) then
        for_each (decode_point e m) (column_points voxels)
          \<lparr>voxelized_cloud = cloud, result_labels = replicate N 0,
           result_prob = replicate (N * labeler_C e) (Finite 0),
           label_frequencies = replicate (labeler_C e) (Finite 0), point_index = 0\<rparr>
      else Inl Overflow)"
proof -
  have "decode_voxel e m = (\<lambda>kv. for_each (decode_point e m) (getIndices (snd kv)))"
    by (intro ext) (simp add: decode_voxel_def)
  then show ?thesis
    by (simp add: decode_def column_points_def for_each_concat)
qed

lemma in_int_product: "in_int (int N * int C) = (N * C < 2 ^ 31)"
proof -
  have lo: "- (2 ^ 31) \<le> int N * int C"
    by (rule order_trans [of _ 0]) simp_all
  have "(int (N * C) < 2 ^ 31) = (N * C < 2 ^ 31)"
    by (simp only: of_nat_less_numeral_power_cancel_iff)
  then have hi: "(int N * int C < 2 ^ 31) = (N * C < 2 ^ 31)"
    by (simp only: of_nat_mult)
  show ?thesis
    unfolding in_int_def hi using lo by blast
qed

lemma bound_factor: "0 < (C::nat) \<Longrightarrow> n * C < b \<Longrightarrow> n < b"
proof -
  assume "0 < C" and b: "n * C < b"
  then have "n \<le> n * C" by (cases C) simp_all
  with b show "n < b" by linarith
qed

lemma copy_points_eq:
  "copy_points cloud voxels pts = for_each (copy_point cloud) (column_points voxels) (pts, 0)"
proof -
  have "copy_voxel cloud = (\<lambda>kv. for_each (copy_point cloud) (getIndices (snd kv)))"
    by (intro ext) (simp add: copy_voxel_def)
  then show ?thesis
    by (simp add: copy_points_def column_points_def for_each_concat)
qed

lemma build_energies_ok:
  "length (column_points voxels) \<le> n \<Longrightarrow>
   \<exists>M. build_energies e voxels n = Inr (M, classifier_events voxels)
      \<and> length (unary M) = n
      \<and> (\<forall>j<length (column_points voxels).
            unary M ! j = classLogPosterior e (getFeatures (snd (column_segments voxels ! j))))"
proof -
  assume le: "length (column_points voxels) \<le> n"
  let ?M0 = "\<lparr>unary = new_matrix e (labeler_C e) n, feature = new_matrix e 6 n,
         feature2 = new_matrix e 3 n, crf_point_index = 0\<rparr>"
  have "\<exists>M' evs'. for_each (classify_voxel e) voxels (?M0, []) = Inr (M', evs')"
    by (rule classify_loop_ok) (use le in \<open>simp_all add: new_matrix_def\<close>)
  then obtain M evs where r: "for_each (classify_voxel e) voxels (?M0, []) = Inr (M, evs)"
    by blast
  from classify_loop [OF r] have "evs = classifier_events voxels" "length (unary M) = n"
     "\<forall>j<length (column_points voxels).
            unary M ! j = classLogPosterior e (getFeatures (snd (column_segments voxels ! j)))"
    by (simp_all add: new_matrix_def)
  with r show ?thesis by (auto simp: build_energies_def)
qed


lemma labels_fit_init:
  assumes "N < 2 ^ 31" and "N * labeler_C e < 2 ^ 31"
  shows "labels_fit e \<lparr>voxelized_cloud = cloud, result_labels = replicate N 0,
           result_prob = replicate (N * labeler_C e) (Finite 0),
           label_frequencies = replicate (labeler_C e) (Finite 0), point_index = 0\<rparr>"
  using assms by (simp add: labels_fit_def mult.commute)

lemma decode_ok:
  assumes "length m = length (column_points voxels)"
    and "list_all (\<lambda>col. length col = labeler_C e) m" and "0 < labeler_C e"
    and "\<forall>i\<in>set (column_points voxels). i < length cloud"
    and "length (column_points voxels) * labeler_C e < 2 ^ 31"
  shows "\<exists>d. decode e m voxels (length (column_points voxels)) cloud = Inr d"
proof -
  let ?n = "length (column_points voxels)"
  have n: "?n < 2 ^ 31" by (rule bound_factor [OF assms(3,5)])
  let ?s0 = "\<lparr>voxelized_cloud = cloud, result_labels = replicate ?n 0,
           result_prob = replicate (?n * labeler_C e) (Finite 0),
           label_frequencies = replicate (labeler_C e) (Finite 0), point_index = 0\<rparr>"
  have "\<exists>s'. for_each (decode_point e m) (column_points voxels) ?s0 = Inr s'"
    by (rule decode_loop_ok)
       (use assms labels_fit_init [OF n assms(5)] in \<open>simp_all add: list_all_iff mult.commute\<close>)
  then show ?thesis
    using assms(5) by (simp add: decode_eq in_int_product)
qed

lemma decode_result:
  assumes "decode e m voxels n cloud = Inr d" and "n = length (column_points voxels)"
    and "n < 2 ^ 31"
  shows "length (result_labels d) = n"
    and "length (result_prob d) = n * labeler_C e"
    and "length (label_frequencies d) = labeler_C e"
    and "length (voxelized_cloud d) = length cloud"
    and "\<forall>j<n. result_labels d ! j = int (decode_label m (labeler_C e) j)"
    and "\<forall>j<n. \<forall>c<labeler_C e. result_prob d ! (labeler_C e * j + c) = mat m c j"
    and "\<forall>i<length cloud. px (voxelized_cloud d ! i) = px (cloud ! i)
            \<and> py (voxelized_cloud d ! i) = py (cloud ! i)
            \<and> pz (voxelized_cloud d ! i) = pz (cloud ! i)
            \<and> pa (voxelized_cloud d ! i) = pa (cloud ! i)
            \<and> (i \<notin> set (column_points voxels) \<longrightarrow> voxelized_cloud d ! i = cloud ! i)"
    and "distinct (column_points voxels) \<longrightarrow>
          (\<forall>j<n. (pr (voxelized_cloud d ! (column_points voxels ! j)),
                   pg (voxelized_cloud d ! (column_points voxels ! j)),
                   pb (voxelized_cloud d ! (column_points voxels ! j)))
                 = labelToRgb e (int (decode_label m (labeler_C e) j)))"
    and "n * labeler_C e < 2 ^ 31"
proof -
  let ?s0 = "\<lparr>voxelized_cloud = cloud, result_labels = replicate n 0,
        result_prob = replicate (n * labeler_C e) (Finite 0),
        label_frequencies = replicate (labeler_C e) (Finite 0), point_index = 0\<rparr>"
  have guard: "n * labeler_C e < 2 ^ 31"
    using assms(1) by (simp add: decode_eq in_int_product split: if_splits)
  have r: "for_each (decode_point e m) (column_points voxels) ?s0 = Inr d"
    using assms(1) guard by (simp add: decode_eq in_int_product)
  have fit: "labels_fit e ?s0" by (rule labels_fit_init [OF assms(3) guard])
  show "n * labeler_C e < 2 ^ 31" by (rule guard)
  show "length (result_labels d) = n" "length (result_prob d) = n * labeler_C e"
    "length (label_frequencies d) = labeler_C e" "length (voxelized_cloud d) = length cloud"
    using decode_loop_index [OF r fit] by simp_all
  show "\<forall>j<n. result_labels d ! j = int (decode_label m (labeler_C e) j)"
    using decode_loop_labels [OF r fit] assms(2) by simp
  show "\<forall>j<n. \<forall>c<labeler_C e. result_prob d ! (labeler_C e * j + c) = mat m c j"
    using decode_loop_prob [OF r fit] assms(2) by simp
  show "\<forall>i<length cloud. px (voxelized_cloud d ! i) = px (cloud ! i)
            \<and> py (voxelized_cloud d ! i) = py (cloud ! i)
            \<and> pz (voxelized_cloud d ! i) = pz (cloud ! i)
            \<and> pa (voxelized_cloud d ! i) = pa (cloud ! i)
            \<and> (i \<notin> set (column_points voxels) \<longrightarrow> voxelized_cloud d ! i = cloud ! i)"
    using decode_loop_cloud [OF r fit] by simp
  show "distinct (column_points voxels) \<longrightarrow>
          (\<forall>j<n. (pr (voxelized_cloud d ! (column_points voxels ! j)),
                   pg (voxelized_cloud d ! (column_points voxels ! j)),
                   pb (voxelized_cloud d ! (column_points voxels ! j)))
                 = labelToRgb e (int (decode_label m (labeler_C e) j)))"
    using decode_loop_color [OF r fit] assms(2) by simp
qed

lemma copy_points_ok:
  assumes "length pts = length (column_points voxels)"
    and "\<forall>i\<in>set (column_points voxels). i < length cloud"
    and "length pts < 2 ^ 32"
  shows "\<exists>pts'. copy_points cloud voxels pts = Inr (pts', length (column_points voxels))
      \<and> length pts' = length (column_points voxels)
      \<and> (\<forall>j<length (column_points voxels). pts' ! j = coords (cloud ! (column_points voxels ! j)))"
proof -
  obtain pts' where r: "for_each (copy_point cloud) (column_points voxels) (pts, 0)
       = Inr (pts', 0 + length (column_points voxels))"
    using copy_loop_ok [of 0 "column_points voxels" pts cloud] assms by auto
  from copy_loop [OF r assms(3)] assms(1) r show ?thesis
    by (auto simp: copy_points_eq)
qed

lemma copy_points_result:
  assumes "copy_points cloud voxels pts = Inr (pts', j)" and "length pts < 2 ^ 32"
  shows "length pts' = length pts"
    and "\<forall>n<length (column_points voxels). pts' ! n = coords (cloud ! (column_points voxels ! n))"
  using copy_loop [of cloud "column_points voxels" pts 0 pts' j] assms
  by (simp_all add: copy_points_eq)

text \<open>The successful run of everything after the acquisition.\<close>

lemma label_acquired_ok:
  assumes seg: "extractVoxels e (convert_to_lab e cloud) origin = (voxels0, voxelized0)"
    and ok: "segments_ok voxels0 voxelized0" "0 < labeler_C e" "solver_ok e"
    and bound: "length (column_points (retained e voxels0)) * labeler_C e < 2 ^ 31"
  shows "\<exists>M d pts.
      build_energies e (retained e voxels0) (length (column_points (retained e voxels0)))
        = Inr (M, classifier_events (retained e voxels0))
    \<and> decode e
        (inference e (length (column_points (retained e voxels0))) (labeler_C e) (unary M)
           (feature M, appearance_weight e) (feature2 M, smoothnes_weight e) (crf_iterations e))
        (retained e voxels0) (length (column_points (retained e voxels0))) (blacken voxelized0) = Inr d
    \<and> copy_points (voxelized_cloud d) (retained e voxels0)
        (resize (res_points res) (length (column_points (retained e voxels0))))
        = Inr (pts, length (column_points (retained e voxels0)))
    \<and> label_acquired e st waypoint_id cloud origin res =
        Inr (True,
             fill_response e (int (length (column_points (retained e voxels0)))) d pts res,
             st\<lparr>stored_waypoints := map_assign (stored_waypoints st) waypoint_id (voxelized_cloud d)\<rparr>,
             map (\<lambda>kv. ComputeFeatures (fst kv)) (filter (keep e) voxels0)
               @ classifier_events (retained e voxels0)
               @ [Inference (length (column_points (retained e voxels0))) (labeler_C e),
                  publish_clouds (st\<lparr>stored_waypoints :=
                     map_assign (stored_waypoints st) waypoint_id (voxelized_cloud d)\<rparr>)])"
proof -
  let ?vs = "retained e voxels0"
  let ?n = "length (column_points ?vs)"
  have n: "?n < 2 ^ 31" by (rule bound_factor [OF ok(2) bound])
  then have "int ?n < 2 ^ 31" by (simp only: of_nat_less_numeral_power_cancel_iff)
  then have filt: "filter_voxels e voxels0 0 =
     Inr (int ?n, ?vs, map (\<lambda>kv. ComputeFeatures (fst kv)) (filter (keep e) voxels0))"
    by (rule filter_voxels_segments [OF ok(1)])
  have range: "\<forall>i\<in>set (column_points ?vs). i < length voxelized0"
    by (rule segments_ok_range [OF ok(1)])
  obtain M where B: "build_energies e ?vs ?n = Inr (M, classifier_events ?vs)"
    using build_energies_ok [of ?vs ?n e] by auto
  let ?m = "inference e ?n (labeler_C e) (unary M)
           (feature M, appearance_weight e) (feature2 M, smoothnes_weight e) (crf_iterations e)"
  have dims: "length ?m = ?n" "list_all (\<lambda>col. length col = labeler_C e) ?m"
    using ok(3) by (simp_all add: solver_ok_def)
  obtain d where D: "decode e ?m ?vs ?n (blacken voxelized0) = Inr d"
    using decode_ok [OF dims ok(2) _ bound, of "blacken voxelized0"] range
    by (auto simp: blacken_def)
  have lend: "length (voxelized_cloud d) = length voxelized0"
    using decode_result(4) [OF D refl n] by (simp add: blacken_def)
  have small: "length (resize (res_points res) ?n) < 2 ^ 32"
    using n by (simp add: length_resize)
  obtain pts where Cp: "copy_points (voxelized_cloud d) ?vs (resize (res_points res) ?n) = Inr (pts, ?n)"
    using copy_points_ok [of "resize (res_points res) ?n" ?vs "voxelized_cloud d"] range lend small
    by (auto simp: length_resize)
  have "label_acquired e st waypoint_id cloud origin res =
        Inr (True, fill_response e (int ?n) d pts res,
             st\<lparr>stored_waypoints := map_assign (stored_waypoints st) waypoint_id (voxelized_cloud d)\<rparr>,
             map (\<lambda>kv. ComputeFeatures (fst kv)) (filter (keep e) voxels0)
               @ classifier_events ?vs
               @ [Inference ?n (labeler_C e),
                  publish_clouds (st\<lparr>stored_waypoints :=
                     map_assign (stored_waypoints st) waypoint_id (voxelized_cloud d)\<rparr>)])"
    by (simp add: label_acquired_def seg filt B D Cp fill_response_def Let_def)
  with B D Cp show ?thesis by blast
qed

lemma label_acquired_plus_eq: "label_acquired_plus = label_acquired"
  by (intro ext) (simp only: label_acquired_plus_def label_acquired_def)

section \<open>A whole request\<close>

lemma label_cloud_run:
  assumes "cloud_service e waypoint_id 0.01 = Some (frame, cloud)"
    and "origin_service e waypoint_id = Some origin"
    and "extractVoxels e (convert_to_lab e cloud) origin = (voxels0, voxelized0)"
    and "filter_voxels e voxels0 0 = Inr (N, voxels, evs1)"
    and "segments_ok voxels0 voxelized0" and "0 < labeler_C e" and "solver_ok e"
    and "nat N * labeler_C e < 2 ^ 31"
  obtains M d pts where
      "N = int (length (column_points voxels))"
      "voxels = retained e voxels0"
      "evs1 = map (\<lambda>kv. ComputeFeatures (fst kv)) (filter (keep e) voxels0)"
      "build_energies e voxels (nat N) = Inr (M, classifier_events voxels)"
      "decode e
            (inference e (nat N) (labeler_C e) (unary M) (feature M, appearance_weight e)
             (feature2 M, smoothnes_weight e) (crf_iterations e)) voxels (nat N) (blacken voxelized0) = Inr d"
      "copy_points (voxelized_cloud d) voxels (resize (res_points res) (nat N)) = Inr (pts, nat N)"
      "label_cloud e st waypoint_id res =
         Inr (True, fill_response e N d pts res,
              st\<lparr>frame_id := frame,
                 stored_waypoints := map_assign (stored_waypoints st) waypoint_id (voxelized_cloud d)\<rparr>,
              evs1 @ classifier_events voxels
                @ [Inference (nat N) (labeler_C e),
                   publish_clouds (st\<lparr>frame_id := frame,
                     stored_waypoints := map_assign (stored_waypoints st) waypoint_id (voxelized_cloud d)\<rparr>)])"
proof -
  have filt: "N = int (length (column_points voxels))" "voxels = retained e voxels0"
      "evs1 = map (\<lambda>kv. ComputeFeatures (fst kv)) (filter (keep e) voxels0)"
    using filter_voxels_Inr [OF assms(4)] segments_ok_count [OF assms(5), of e] by simp_all
  have n: "nat N = length (column_points (retained e voxels0))"
    using filt by simp
  have bound: "length (column_points (retained e voxels0)) * labeler_C e < 2 ^ 31"
    using assms(8) n by simp
  obtain M d pts where r:
      "build_energies e (retained e voxels0) (length (column_points (retained e voxels0)))
        = Inr (M, classifier_events (retained e voxels0))"
      "decode e
        (inference e (length (column_points (retained e voxels0))) (labeler_C e) (unary M)
           (feature M, appearance_weight e) (feature2 M, smoothnes_weight e) (crf_iterations e))
        (retained e voxels0) (length (column_points (retained e voxels0))) (blacken voxelized0) = Inr d"
      "copy_points (voxelized_cloud d) (retained e voxels0)
        (resize (res_points res) (length (column_points (retained e voxels0))))
        = Inr (pts, length (column_points (retained e voxels0)))"
      "label_acquired e (st\<lparr>frame_id := frame\<rparr>) waypoint_id cloud origin res =
        Inr (True,
             fill_response e (int (length (column_points (retained e voxels0)))) d pts res,
             st\<lparr>frame_id := frame\<rparr>\<lparr>stored_waypoints := map_assign (stored_waypoints (st\<lparr>frame_id := frame\<rparr>)) waypoint_id (voxelized_cloud d)\<rparr>,
             map (\<lambda>kv. ComputeFeatures (fst kv)) (filter (keep e) voxels0)
               @ classifier_events (retained e voxels0)
               @ [Inference (length (column_points (retained e voxels0))) (labeler_C e),
                  publish_clouds (st\<lparr>frame_id := frame\<rparr>\<lparr>stored_waypoints :=
                     map_assign (stored_waypoints (st\<lparr>frame_id := frame\<rparr>)) waypoint_id (voxelized_cloud d)\<rparr>)])"
    using label_acquired_ok [OF assms(3,5,6,7) bound, of res "st\<lparr>frame_id := frame\<rparr>" waypoint_id] by blast
  show ?thesis
  proof (rule that [of M d pts])
    show "N = int (length (column_points voxels))" by (rule filt(1))
    show "voxels = retained e voxels0" by (rule filt(2))
    show "evs1 = map (\<lambda>kv. ComputeFeatures (fst kv)) (filter (keep e) voxels0)" by (rule filt(3))
    show "build_energies e voxels (nat N) = Inr (M, classifier_events voxels)"
      using r(1) n filt(2) by simp
    show "decode e
            (inference e (nat N) (labeler_C e) (unary M) (feature M, appearance_weight e)
             (feature2 M, smoothnes_weight e) (crf_iterations e)) voxels (nat N) (blacken voxelized0) = Inr d"
      using r(2) n filt(2) by simp
    show "copy_points (voxelized_cloud d) voxels (resize (res_points res) (nat N)) = Inr (pts, nat N)"
      using r(3) n filt(2) by simp
    show "label_cloud e st waypoint_id res =
         Inr (True, fill_response e N d pts res,
              st\<lparr>frame_id := frame,
                 stored_waypoints := map_assign (stored_waypoints st) waypoint_id (voxelized_cloud d)\<rparr>,
              evs1 @ classifier_events voxels
                @ [Inference (nat N) (labeler_C e),
                   publish_clouds (st\<lparr>frame_id := frame,
                     stored_waypoints := map_assign (stored_waypoints st) waypoint_id (voxelized_cloud d)\<rparr>)])"
      using r(4) n filt assms(1,2) by (simp add: label_cloud_def)
  qed
qed

text \<open>
  C9. A request whose acquisitions succeed, whose segmentation is well formed, whose
  solver returns a \<open>C \<times> N\<close> matrix and whose \<open>N * C\<close> probabilities fit the 32-bit \<^verbatim>\<open>int\<close>
  of lines 161 and 185 (\<open>N * C < 2^31\<close>) returns true, and its response has the stated
  shapes: the label names of the converter, \<open>N\<close> hard labels, \<open>N * C\<close> probabilities, \<open>C\<close>
  frequencies and \<open>N\<close> points, with the probability of class \<open>c\<close> for point \<open>j\<close> at index
  \<open>j * C + c\<close>. \<open>N\<close> is the count the filter loop returned, \<open>M\<close> holds the matrices built
  for the request, and the probabilities are the entries of the matrix the solver returns
  for them.
\<close>

theorem response_shapes:
  assumes "cloud_service e waypoint_id 0.01 = Some (frame, cloud)"
    and "origin_service e waypoint_id = Some origin"
    and "extractVoxels e (convert_to_lab e cloud) origin = (voxels0, voxelized0)"
    and "filter_voxels e voxels0 0 = Inr (N, voxels, evs1)"
    and "segments_ok voxels0 voxelized0" and "0 < labeler_C e" and "solver_ok e"
    and "nat N * labeler_C e < 2 ^ 31"
  shows "\<exists>M evs2 res' st' evs.
       build_energies e voxels (nat N) = Inr (M, evs2)
     \<and> label_cloud e st waypoint_id res = Inr (True, res', st', evs)
     \<and> res_index_to_label_name res' = getLabelNames e
     \<and> length (res_label res') = nat N
     \<and> length (res_label_probabilities res') = nat N * labeler_C e
     \<and> length (res_label_frequencies res') = labeler_C e
     \<and> length (res_points res') = nat N
     \<and> (\<forall>j<nat N. \<forall>c<labeler_C e.
           res_label_probabilities res' ! (j * labeler_C e + c) = mat
            (inference e (nat N) (labeler_C e) (unary M) (feature M, appearance_weight e)
             (feature2 M, smoothnes_weight e) (crf_iterations e)) c j)"
proof -
  obtain M d pts where r:
      "N = int (length (column_points voxels))"
      "build_energies e voxels (nat N) = Inr (M, classifier_events voxels)"
      "decode e
            (inference e (nat N) (labeler_C e) (unary M) (feature M, appearance_weight e)
             (feature2 M, smoothnes_weight e) (crf_iterations e)) voxels (nat N) (blacken voxelized0) = Inr d"
      "copy_points (voxelized_cloud d) voxels (resize (res_points res) (nat N)) = Inr (pts, nat N)"
      "label_cloud e st waypoint_id res =
         Inr (True, fill_response e N d pts res,
              st\<lparr>frame_id := frame,
                 stored_waypoints := map_assign (stored_waypoints st) waypoint_id (voxelized_cloud d)\<rparr>,
              evs1 @ classifier_events voxels
                @ [Inference (nat N) (labeler_C e),
                   publish_clouds (st\<lparr>frame_id := frame,
                     stored_waypoints := map_assign (stored_waypoints st) waypoint_id (voxelized_cloud d)\<rparr>)])"
    by (rule label_cloud_run [OF assms, of res st]) (rule that; assumption)
  have n: "nat N = length (column_points voxels)" using r(1) by simp
  have small: "nat N < 2 ^ 31" by (rule bound_factor [OF assms(6) assms(8)])
  have small2: "length (resize (res_points res) (nat N)) < 2 ^ 32"
    using small by (simp add: length_resize)
  note dr = decode_result [OF r(3) n small]
  have lp: "length pts = nat N"
    using copy_points_result(1) [OF r(4) small2] by (simp add: length_resize)
  have "\<forall>j<nat N. \<forall>c<labeler_C e.
           result_prob d ! (j * labeler_C e + c) = mat
            (inference e (nat N) (labeler_C e) (unary M) (feature M, appearance_weight e)
             (feature2 M, smoothnes_weight e) (crf_iterations e)) c j"
    using dr(6) by (simp add: mult.commute)
  then show ?thesis
    using r(2,5) dr(1,2,3) lp
    by (simp add: fill_response_def normalize_frequencies_def)
qed

lemma add_point_loop_features:
  "for_each (add_point e v probs cs rs ss) idx M = Inr M' \<Longrightarrow>
     (\<forall>j<crf_point_index M. feature M' ! j = feature M ! j \<and> feature2 M' ! j = feature2 M ! j)
   \<and> (\<forall>n<length idx.
         feature M' ! (crf_point_index M + n) = appearance_feature e v (idx ! n) cs rs
       \<and> feature2 M' ! (crf_point_index M + n) = smoothnes_feature e v (idx ! n) ss)"
proof (induction idx arbitrary: M)
  case Nil
  then show ?case by simp
next
  case (Cons i idx)
  then obtain M1 where M1: "add_point e v probs cs rs ss i M = Inr M1"
    and rest: "for_each (add_point e v probs cs rs ss) idx M1 = Inr M'"
    by (auto split: sum.splits)
  let ?p = "crf_point_index M"
  from M1 have ok: "?p < length (feature M)" "?p < length (feature2 M)"
    and f1: "feature M1 = (feature M)[?p := appearance_feature e v i cs rs]"
    and f2: "feature2 M1 = (feature2 M)[?p := smoothnes_feature e v i ss]"
    and p1: "crf_point_index M1 = ?p + 1"
    by (auto simp: add_point_eq split: if_splits)
  note ih = Cons.IH [OF rest]
  have new: "\<forall>n<length (i # idx).
         feature M' ! (?p + n) = appearance_feature e v ((i # idx) ! n) cs rs
       \<and> feature2 M' ! (?p + n) = smoothnes_feature e v ((i # idx) ! n) ss"
  proof (intro allI impI)
    fix n assume n: "n < length (i # idx)"
    show "feature M' ! (?p + n) = appearance_feature e v ((i # idx) ! n) cs rs
       \<and> feature2 M' ! (?p + n) = smoothnes_feature e v ((i # idx) ! n) ss"
    proof (cases n)
      case 0
      then show ?thesis using ih ok f1 f2 p1 by simp
    next
      case (Suc n')
      then have "n' < length idx" using n by simp
      then show ?thesis using ih Suc p1 by simp
    qed
  qed
  have "\<forall>j<?p. feature M' ! j = feature M ! j \<and> feature2 M' ! j = feature2 M ! j"
    using ih f1 f2 p1 by simp
  with new show ?case by blast
qed

lemma classify_loop_features:
  "for_each (classify_voxel e) voxels (M, evs) = Inr (M', evs') \<Longrightarrow>
     (\<forall>j<crf_point_index M. feature M' ! j = feature M ! j \<and> feature2 M' ! j = feature2 M ! j)
   \<and> (\<forall>n<length (column_points voxels).
         feature M' ! (crf_point_index M + n)
           = appearance_feature e (snd (column_segments voxels ! n)) (column_points voxels ! n)
               (appearance_color_sigma e) (appearance_range_sigma e)
       \<and> feature2 M' ! (crf_point_index M + n)
           = smoothnes_feature e (snd (column_segments voxels ! n)) (column_points voxels ! n)
               (smoothnes_range_sigma e))"
proof (induction voxels arbitrary: M evs)
  case Nil
  then show ?case by (simp add: column_points_def)
next
  case (Cons kv voxels)
  obtain k v where kv: "kv = (k, v)" by (cases kv)
  let ?probs = "classLogPosterior e (getFeatures v)"
  let ?p = "crf_point_index M" and ?n1 = "length (getIndices v)"
  from Cons.prems obtain M1 where
    M1: "for_each (add_point e v ?probs (appearance_color_sigma e) (appearance_range_sigma e)
           (smoothnes_range_sigma e)) (getIndices v) M = Inr M1"
    and rest: "for_each (classify_voxel e) voxels (M1, evs @ [ClassLogPosterior k, AddDataToCrfMats k]) = Inr (M', evs')"
    by (auto simp: kv classify_voxel_eq split: sum.splits)
  note a = add_point_loop [OF M1]
  note af = add_point_loop_features [OF M1]
  note ih = Cons.IH [OF rest]
  have p1: "crf_point_index M1 = ?p + ?n1" using a by simp
  have old: "\<forall>j<?p. feature M' ! j = feature M ! j \<and> feature2 M' ! j = feature2 M ! j"
    using ih af p1 by simp
  have new: "\<forall>n<length (column_points (kv # voxels)).
         feature M' ! (?p + n)
           = appearance_feature e (snd (column_segments (kv # voxels) ! n)) (column_points (kv # voxels) ! n)
               (appearance_color_sigma e) (appearance_range_sigma e)
       \<and> feature2 M' ! (?p + n)
           = smoothnes_feature e (snd (column_segments (kv # voxels) ! n)) (column_points (kv # voxels) ! n)
               (smoothnes_range_sigma e)"
  proof (intro allI impI)
    fix n assume n: "n < length (column_points (kv # voxels))"
    show "feature M' ! (?p + n)
           = appearance_feature e (snd (column_segments (kv # voxels) ! n)) (column_points (kv # voxels) ! n)
               (appearance_color_sigma e) (appearance_range_sigma e)
       \<and> feature2 M' ! (?p + n)
           = smoothnes_feature e (snd (column_segments (kv # voxels) ! n)) (column_points (kv # voxels) ! n)
               (smoothnes_range_sigma e)"
    proof (cases "n < ?n1")
      case True
      have "feature M' ! (?p + n) = feature M1 ! (?p + n)"
        "feature2 M' ! (?p + n) = feature2 M1 ! (?p + n)" using ih p1 True by simp_all
      then show ?thesis using af True by (simp add: column_segments_Cons column_points_Cons kv nth_append)
    next
      case False
      then obtain n' where n': "n = ?n1 + n'" using le_Suc_ex [of ?n1 n] by auto
      then have "n' < length (column_points voxels)" using n by (simp add: column_points_Cons kv)
      then have "feature M' ! (crf_point_index M1 + n')
           = appearance_feature e (snd (column_segments voxels ! n')) (column_points voxels ! n')
               (appearance_color_sigma e) (appearance_range_sigma e)
       \<and> feature2 M' ! (crf_point_index M1 + n')
           = smoothnes_feature e (snd (column_segments voxels ! n')) (column_points voxels ! n')
               (smoothnes_range_sigma e)"
        using ih by blast
      then show ?thesis using n' p1
        by (simp add: column_segments_Cons column_points_Cons kv nth_append add.assoc)
    qed
  qed
  from old new show ?case by blast
qed

lemma build_energies_result:
  assumes "build_energies e voxels n = Inr (M, evs)"
  shows "evs = classifier_events voxels"
    and "\<forall>j<length (column_points voxels).
            unary M ! j = classLogPosterior e (getFeatures (snd (column_segments voxels ! j)))
          \<and> feature M ! j = appearance_feature e (snd (column_segments voxels ! j))
               (column_points voxels ! j) (appearance_color_sigma e) (appearance_range_sigma e)
          \<and> feature2 M ! j = smoothnes_feature e (snd (column_segments voxels ! j))
               (column_points voxels ! j) (smoothnes_range_sigma e)"
  using classify_loop [OF assms [unfolded build_energies_def]]
    classify_loop_features [OF assms [unfolded build_energies_def]]
  by simp_all

lemma column_point_member:
  "j < length (column_points voxels) \<Longrightarrow>
     column_segments voxels ! j \<in> set voxels
   \<and> column_points voxels ! j \<in> set (getIndices (snd (column_segments voxels ! j)))"
proof (induction voxels arbitrary: j)
  case Nil
  then show ?case by (simp add: column_points_def)
next
  case (Cons kv voxels)
  show ?case
  proof (cases "j < length (getIndices (snd kv))")
    case True
    then show ?thesis by (simp add: column_points_Cons column_segments_Cons nth_append)
  next
    case False
    then have "j - length (getIndices (snd kv)) < length (column_points voxels)"
      using Cons.prems by (simp add: column_points_Cons)
    from Cons.IH [OF this] False show ?thesis
      by (simp add: column_points_Cons column_segments_Cons nth_append)
  qed
qed

lemma classifier_calls_append:
  "classifier_calls (xs @ ys) = classifier_calls xs @ classifier_calls ys"
  by (induction xs rule: classifier_calls.induct) simp_all

lemma feature_calls_append:
  "feature_calls (xs @ ys) = feature_calls xs @ feature_calls ys"
  by (induction xs rule: feature_calls.induct) simp_all

lemma calls_of_feature_events:
  "classifier_calls (map (\<lambda>kv. ComputeFeatures (fst kv)) voxels) = []"
  "feature_calls (map (\<lambda>kv. ComputeFeatures (fst kv)) voxels) = map fst voxels"
  by (induction voxels) simp_all

lemma calls_of_classifier_events:
  "classifier_calls (classifier_events voxels) = map fst voxels"
  "feature_calls (classifier_events voxels) = []"
  by (induction voxels) (simp_all add: classifier_events_def)

lemma map_fst_retained: "map fst (retained e voxels) = map fst (filter (keep e) voxels)"
  by (simp add: retained_def with_features_def comp_def)

lemma count_list_distinct: "distinct xs \<Longrightarrow> x \<in> set xs \<Longrightarrow> count_list xs x = 1"
  by (induction xs) (auto simp: count_list_0_iff)

lemma coords_eq:
  "px p = px q \<Longrightarrow> py p = py q \<Longrightarrow> pz p = pz q \<Longrightarrow> coords p = coords q"
  by (simp add: coords_def)

lemma blacken_nth:
  "i < length cloud \<Longrightarrow> blacken cloud ! i = (cloud ! i)\<lparr>pr := 0, pg := 0, pb := 0\<rparr>"
  by (simp add: blacken_def)

lemma map_of_map_assign_same: "map_of (map_assign m k v) k = Some v"
  by (simp add: map_of_map_assign)

text \<open>
  C2. In a successful request of at most \<open>2^31 - 1\<close> probabilities (\<open>N * C\<close> fits the
  32-bit \<^verbatim>\<open>int\<close> of lines 161 and 185) the columns are the points of the retained
  segments, segment by segment. For every \<open>j < N\<close>: column \<open>j\<close> of the unary matrix is the
  posterior of the segment that owns point \<open>column_points voxels ! j\<close>; columns \<open>j\<close> of the
  two pairwise feature matrices are that point's features; the solver is called on these
  three matrices, and the hard label at position \<open>j\<close> and the probabilities at
  \<open>C * j .. C * j + C - 1\<close> are decoded from column \<open>j\<close> of the matrix it returns; the
  point at position \<open>j\<close> of the response has the coordinates of that same point of the
  voxelized cloud. When no point index occurs twice in the retained segments, that same
  point of the cloud stored for the request carries the colour of label \<open>j\<close>.
\<close>

theorem column_order_consistent:
  assumes "cloud_service e waypoint_id 0.01 = Some (frame, cloud)"
    and "origin_service e waypoint_id = Some origin"
    and "extractVoxels e (convert_to_lab e cloud) origin = (voxels0, voxelized0)"
    and "filter_voxels e voxels0 0 = Inr (N, voxels, evs1)"
    and "segments_ok voxels0 voxelized0" and "0 < labeler_C e" and "solver_ok e"
    and "nat N * labeler_C e < 2 ^ 31"
  shows "\<exists>M evs2 res' st' evs.
       build_energies e voxels (nat N) = Inr (M, evs2)
     \<and> label_cloud e st waypoint_id res = Inr (True, res', st', evs)
     \<and> length (column_points voxels) = nat N
     \<and> (\<forall>j<nat N.
           column_segments voxels ! j \<in> set voxels
         \<and> column_points voxels ! j \<in> set (getIndices (snd (column_segments voxels ! j)))
         \<and> unary M ! j = classLogPosterior e (getFeatures (snd (column_segments voxels ! j)))
         \<and> feature M ! j = appearance_feature e (snd (column_segments voxels ! j))
               (column_points voxels ! j) (appearance_color_sigma e) (appearance_range_sigma e)
         \<and> feature2 M ! j = smoothnes_feature e (snd (column_segments voxels ! j))
               (column_points voxels ! j) (smoothnes_range_sigma e)
         \<and> res_label res' ! j = int (decode_label
            (inference e (nat N) (labeler_C e) (unary M) (feature M, appearance_weight e)
             (feature2 M, smoothnes_weight e) (crf_iterations e)) (labeler_C e) j)
         \<and> (\<forall>c<labeler_C e. res_label_probabilities res' ! (labeler_C e * j + c)
               = mat
            (inference e (nat N) (labeler_C e) (unary M) (feature M, appearance_weight e)
             (feature2 M, smoothnes_weight e) (crf_iterations e)) c j)
         \<and> res_points res' ! j = coords (voxelized0 ! (column_points voxels ! j)))
     \<and> (distinct (column_points voxels) \<longrightarrow>
          (\<exists>stored. map_of (stored_waypoints st') waypoint_id = Some stored
             \<and> (\<forall>j<nat N. (pr (stored ! (column_points voxels ! j)),
                           pg (stored ! (column_points voxels ! j)),
                           pb (stored ! (column_points voxels ! j)))
                          = labelToRgb e (res_label res' ! j))))"
proof -
  obtain M d pts where r:
      "N = int (length (column_points voxels))"
      "voxels = retained e voxels0"
      "build_energies e voxels (nat N) = Inr (M, classifier_events voxels)"
      "decode e
            (inference e (nat N) (labeler_C e) (unary M) (feature M, appearance_weight e)
             (feature2 M, smoothnes_weight e) (crf_iterations e)) voxels (nat N) (blacken voxelized0) = Inr d"
      "copy_points (voxelized_cloud d) voxels (resize (res_points res) (nat N)) = Inr (pts, nat N)"
      "label_cloud e st waypoint_id res =
         Inr (True, fill_response e N d pts res,
              st\<lparr>frame_id := frame,
                 stored_waypoints := map_assign (stored_waypoints st) waypoint_id (voxelized_cloud d)\<rparr>,
              evs1 @ classifier_events voxels
                @ [Inference (nat N) (labeler_C e),
                   publish_clouds (st\<lparr>frame_id := frame,
                     stored_waypoints := map_assign (stored_waypoints st) waypoint_id (voxelized_cloud d)\<rparr>)])"
    by (rule label_cloud_run [OF assms, of res st]) (rule that; assumption)
  let ?res' = "fill_response e N d pts res"
  let ?st' = "st\<lparr>frame_id := frame,
                 stored_waypoints := map_assign (stored_waypoints st) waypoint_id (voxelized_cloud d)\<rparr>"
  let ?m = "inference e (nat N) (labeler_C e) (unary M) (feature M, appearance_weight e)
             (feature2 M, smoothnes_weight e) (crf_iterations e)"
  have n: "nat N = length (column_points voxels)" using r(1) by simp
  have small: "nat N < 2 ^ 31" by (rule bound_factor [OF assms(6) assms(8)])
  have small2: "length (resize (res_points res) (nat N)) < 2 ^ 32"
    using small by (simp add: length_resize)
  note dr = decode_result [OF r(4) n small]
  note br = build_energies_result [OF r(3)]
  note cr = copy_points_result [OF r(5) small2]
  have range: "\<forall>i\<in>set (column_points voxels). i < length voxelized0"
    using segments_ok_range [OF assms(5), of e] r(2) by simp
  have pts: "\<forall>j<nat N. pts ! j = coords (voxelized0 ! (column_points voxels ! j))"
  proof (intro allI impI)
    fix j assume j: "j < nat N"
    let ?i = "column_points voxels ! j"
    have i: "?i < length voxelized0" using range j n by simp
    then have "coords (voxelized_cloud d ! ?i) = coords (blacken voxelized0 ! ?i)"
      using dr(7) by (intro coords_eq) (simp_all add: blacken_def)
    also have "\<dots> = coords (voxelized0 ! ?i)"
      using i by (simp add: blacken_nth coords_def)
    finally show "pts ! j = coords (voxelized0 ! ?i)" using cr(2) j n by simp
  qed
  have "\<forall>j<nat N.
           column_segments voxels ! j \<in> set voxels
         \<and> column_points voxels ! j \<in> set (getIndices (snd (column_segments voxels ! j)))"
    using column_point_member [of _ voxels] n by simp
  with pts br(2) dr(5,6) n have main: "\<forall>j<nat N.
           column_segments voxels ! j \<in> set voxels
         \<and> column_points voxels ! j \<in> set (getIndices (snd (column_segments voxels ! j)))
         \<and> unary M ! j = classLogPosterior e (getFeatures (snd (column_segments voxels ! j)))
         \<and> feature M ! j = appearance_feature e (snd (column_segments voxels ! j))
               (column_points voxels ! j) (appearance_color_sigma e) (appearance_range_sigma e)
         \<and> feature2 M ! j = smoothnes_feature e (snd (column_segments voxels ! j))
               (column_points voxels ! j) (smoothnes_range_sigma e)
         \<and> res_label ?res' ! j = int (decode_label ?m (labeler_C e) j)
         \<and> (\<forall>c<labeler_C e. res_label_probabilities ?res' ! (labeler_C e * j + c) = mat ?m c j)
         \<and> res_points ?res' ! j = coords (voxelized0 ! (column_points voxels ! j))"
    by (simp add: fill_response_def)
  have lookup: "map_of (stored_waypoints ?st') waypoint_id = Some (voxelized_cloud d)"
    by (simp add: map_of_map_assign_same)
  have "distinct (column_points voxels) \<longrightarrow>
          (\<forall>j<nat N. (pr (voxelized_cloud d ! (column_points voxels ! j)),
                       pg (voxelized_cloud d ! (column_points voxels ! j)),
                       pb (voxelized_cloud d ! (column_points voxels ! j)))
                      = labelToRgb e (res_label ?res' ! j))"
    using dr(8) dr(5) by (simp add: fill_response_def)
  with lookup have col: "distinct (column_points voxels) \<longrightarrow>
          (\<exists>stored. map_of (stored_waypoints ?st') waypoint_id = Some stored
             \<and> (\<forall>j<nat N. (pr (stored ! (column_points voxels ! j)),
                           pg (stored ! (column_points voxels ! j)),
                           pb (stored ! (column_points voxels ! j)))
                          = labelToRgb e (res_label ?res' ! j)))"
    by blast
  have len: "length (column_points voxels) = nat N" using n by simp
  from r(3) r(6) len main col show ?thesis by blast
qed

text \<open>
  C7. In a successful request (one whose \<open>N * C\<close> probabilities fit the 32-bit \<^verbatim>\<open>int\<close> of
  lines 161 and 185) the classifier calls, in order, are the keys of the retained
  segments, one call for each, and so are the feature computations; the retained segments
  are the segments of at least \<open>minimum_points\<close> points. When the keys of the segment map
  are distinct, as in a \<^verbatim>\<open>std::map\<close>, each retained segment is classified exactly once and
  has its features computed exactly once. Every column of the unary matrix holds the
  posterior of the segment that owns the column.
\<close>

theorem classifier_once_per_segment:
  assumes "cloud_service e waypoint_id 0.01 = Some (frame, cloud)"
    and "origin_service e waypoint_id = Some origin"
    and "extractVoxels e (convert_to_lab e cloud) origin = (voxels0, voxelized0)"
    and "filter_voxels e voxels0 0 = Inr (N, voxels, evs1)"
    and "segments_ok voxels0 voxelized0" and "0 < labeler_C e" and "solver_ok e"
    and "nat N * labeler_C e < 2 ^ 31"
  shows "\<exists>M evs2 res' st' evs.
       build_energies e voxels (nat N) = Inr (M, evs2)
     \<and> label_cloud e st waypoint_id res = Inr (True, res', st', evs)
     \<and> voxels = map (with_features e) (filter (\<lambda>kv. minimum_points e \<le> getSize (snd kv)) voxels0)
     \<and> classifier_calls evs = map fst voxels
     \<and> feature_calls evs = map fst voxels
     \<and> (distinct (map fst voxels0) \<longrightarrow>
          (\<forall>k\<in>set (map fst voxels).
             count_list (classifier_calls evs) k = 1 \<and> count_list (feature_calls evs) k = 1))
     \<and> (\<forall>j<nat N. unary M ! j = classLogPosterior e (getFeatures (snd (column_segments voxels ! j))))"
proof -
  obtain M d pts where r:
      "N = int (length (column_points voxels))"
      "voxels = retained e voxels0"
      "evs1 = map (\<lambda>kv. ComputeFeatures (fst kv)) (filter (keep e) voxels0)"
      "build_energies e voxels (nat N) = Inr (M, classifier_events voxels)"
      "label_cloud e st waypoint_id res =
         Inr (True, fill_response e N d pts res,
              st\<lparr>frame_id := frame,
                 stored_waypoints := map_assign (stored_waypoints st) waypoint_id (voxelized_cloud d)\<rparr>,
              evs1 @ classifier_events voxels
                @ [Inference (nat N) (labeler_C e),
                   publish_clouds (st\<lparr>frame_id := frame,
                     stored_waypoints := map_assign (stored_waypoints st) waypoint_id (voxelized_cloud d)\<rparr>)])"
    by (rule label_cloud_run [OF assms, of res st]) (rule that; assumption)
  let ?evs = "evs1 @ classifier_events voxels
                @ [Inference (nat N) (labeler_C e),
                   publish_clouds (st\<lparr>frame_id := frame,
                     stored_waypoints := map_assign (stored_waypoints st) waypoint_id (voxelized_cloud d)\<rparr>)]"
  have n: "nat N = length (column_points voxels)" using r(1) by simp
  have keys: "map fst voxels = map fst (filter (keep e) voxels0)"
    using r(2) by (simp add: map_fst_retained)
  have cc: "classifier_calls ?evs = map fst voxels"
    by (simp add: classifier_calls_append r(3) calls_of_feature_events
        calls_of_classifier_events publish_clouds_def)
  have fc: "feature_calls ?evs = map fst voxels"
    by (simp add: feature_calls_append r(3) calls_of_feature_events
        calls_of_classifier_events publish_clouds_def keys)
  have once: "distinct (map fst voxels0) \<longrightarrow>
          (\<forall>k\<in>set (map fst voxels).
             count_list (classifier_calls ?evs) k = 1 \<and> count_list (feature_calls ?evs) k = 1)"
  proof
    assume "distinct (map fst voxels0)"
    then have "distinct (map fst voxels)"
      unfolding keys by (rule distinct_map_filter)
    then show "\<forall>k\<in>set (map fst voxels).
             count_list (classifier_calls ?evs) k = 1 \<and> count_list (feature_calls ?evs) k = 1"
      unfolding cc fc by (simp add: count_list_distinct)
  qed
  have shape: "voxels = map (with_features e) (filter (\<lambda>kv. minimum_points e \<le> getSize (snd kv)) voxels0)"
  proof -
    have "keep e = (\<lambda>kv. minimum_points e \<le> getSize (snd kv))"
      by (intro ext) (simp add: keep_def split_beta)
    then show ?thesis using r(2) by (simp add: retained_def)
  qed
  have un: "\<forall>j<nat N. unary M ! j = classLogPosterior e (getFeatures (snd (column_segments voxels ! j)))"
    using build_energies_result(2) [OF r(4)] n by simp
  from r(4,5) shape cc fc once un show ?thesis by blast
qed




text \<open>
  C6. When the cloud service or the origin service fails, either handler returns false,
  with the response and the members (the stored clouds and the frame id) as they were,
  and without any event: no feature is computed, no segment classified, no inference run
  and nothing published.
\<close>

theorem acquisition_failure:
  "(cloud_service e waypoint_id 0.01 = None \<or> origin_service e waypoint_id = None
      \<longrightarrow> label_cloud e st waypoint_id res = Inr (False, res, st, []))
   \<and> (cloud_service_plus e waypoint_id instance_number 0.01 = None \<or> origin_service e waypoint_id = None
      \<longrightarrow> label_cloud_plus e st waypoint_id instance_number res = Inr (False, res, st, []))"
  by (auto simp: label_cloud_def label_cloud_plus_def split: option.splits)

text \<open>
  C8. When the instance-scoped cloud service answers as the plain one does,
  \<^verbatim>\<open>label_cloud_plus\<close> and \<^verbatim>\<open>label_cloud\<close> return the same flag, response, members and
  events.
\<close>

theorem handlers_agree:
  assumes "cloud_service_plus e waypoint_id instance_number 0.01 = cloud_service e waypoint_id 0.01"
  shows "label_cloud_plus e st waypoint_id instance_number res = label_cloud e st waypoint_id res"
  unfolding label_cloud_def label_cloud_plus_def label_acquired_plus_eq assms
  by (rule refl)

section \<open>The store of a request and the fused cloud\<close>






section \<open>Discarded segments do not reach the result\<close>

lemma keep_eq: "keep e = (\<lambda>kv. minimum_points e \<le> getSize (snd kv))"
  by (intro ext) (simp add: keep_def)

lemma without_discarded_fields [simp]:
  "labeler_C (without_discarded e) = labeler_C e"
  "minimum_points (without_discarded e) = minimum_points e"
  "appearance_weight (without_discarded e) = appearance_weight e"
  "smoothnes_weight (without_discarded e) = smoothnes_weight e"
  "crf_iterations (without_discarded e) = crf_iterations e"
  "cloud_service (without_discarded e) = cloud_service e"
  "origin_service (without_discarded e) = origin_service e"
  "getLabelNames (without_discarded e) = getLabelNames e"
  "labelToRgb (without_discarded e) = labelToRgb e"
  "computeFeatures (without_discarded e) = computeFeatures e"
  "classLogPosterior (without_discarded e) = classLogPosterior e"
  "inference (without_discarded e) = inference e"
  "round_float (without_discarded e) = round_float e"
  by (simp_all add: without_discarded_def)

lemma filter_voxels_without_discarded:
  "filter_voxels (without_discarded e) voxels N = filter_voxels e voxels N"
  by (induction voxels arbitrary: N) (auto simp: Let_def split: sum.splits)

lemma without_discarded_stages:
  "convert_to_lab (without_discarded e) = convert_to_lab e"
  "filter_voxels (without_discarded e) = filter_voxels e"
  "add_point (without_discarded e) = add_point e"
  "new_matrix (without_discarded e) = new_matrix e"
  "decode_point (without_discarded e) = decode_point e"
  "normalize_frequencies (without_discarded e) = normalize_frequencies e"
proof -
  show "convert_to_lab (without_discarded e) = convert_to_lab e"
    by (intro ext) (simp add: convert_to_lab_def without_discarded_def)
  show "filter_voxels (without_discarded e) = filter_voxels e"
    by (intro ext) (rule filter_voxels_without_discarded)
  show "add_point (without_discarded e) = add_point e"
    by (intro ext) (simp add: add_point_eq without_discarded_def)
  show "new_matrix (without_discarded e) = new_matrix e"
    by (intro ext) (simp add: new_matrix_def without_discarded_def)
  have "prob_step (without_discarded e) = prob_step e"
    by (intro ext) (simp only: prob_step_def without_discarded_fields)
  then show "decode_point (without_discarded e) = decode_point e"
    by (intro ext) (simp only: decode_point_def without_discarded_fields)
  show "normalize_frequencies (without_discarded e) = normalize_frequencies e"
    by (intro ext) (simp only: normalize_frequencies_def without_discarded_fields)
qed

lemma without_discarded_loops:
  "build_energies (without_discarded e) = build_energies e"
  "decode (without_discarded e) = decode e"
proof -
  have "addDataToCrfMats (without_discarded e) = addDataToCrfMats e"
    by (intro ext) (simp add: addDataToCrfMats_def without_discarded_stages)
  then have "classify_voxel (without_discarded e) = classify_voxel e"
    by (intro ext) (simp add: classify_voxel_def without_discarded_def)
  then show "build_energies (without_discarded e) = build_energies e"
    by (intro ext) (simp add: build_energies_def without_discarded_stages)
  have "decode_voxel (without_discarded e) = decode_voxel e"
    by (intro ext) (simp add: decode_voxel_def without_discarded_stages)
  then show "decode (without_discarded e) = decode e"
    by (intro ext) (simp add: decode_def)
qed

lemma label_acquired_without_discarded:
  "label_acquired (without_discarded e) st waypoint_id cloud origin res
     = label_acquired e st waypoint_id cloud origin res"
proof -
  obtain voxels0 voxelized0 where seg:
    "extractVoxels e (convert_to_lab e cloud) origin = (voxels0, voxelized0)"
    by (cases "extractVoxels e (convert_to_lab e cloud) origin")
  have seg': "extractVoxels (without_discarded e) (convert_to_lab e cloud) origin
      = (filter (keep e) voxels0, voxelized0)"
    by (simp add: without_discarded_def seg keep_eq)
  show ?thesis
    unfolding label_acquired_def without_discarded_stages without_discarded_loops
      without_discarded_fields seg seg' prod.case filter_voxels_idem
    by (rule refl)
qed

lemma discarded_segments_irrelevant:
  "label_cloud (without_discarded e) st waypoint_id res = label_cloud e st waypoint_id res"
  unfolding label_cloud_def without_discarded_fields label_acquired_without_discarded
  by (rule refl)

lemma sizes_retained:
  "map (\<lambda>kv. getSize (snd kv)) (retained e voxels0)
     = map (\<lambda>kv. getSize (snd kv)) (filter (keep e) voxels0)"
  by (simp add: retained_def with_features_def comp_def)

lemma retained_member:
  "kv \<in> set (retained e voxels0) \<Longrightarrow>
   \<exists>kv0\<in>set voxels0. minimum_points e \<le> getSize (snd kv0)
      \<and> getIndices (snd kv) = getIndices (snd kv0)"
  by (auto simp: retained_def with_features_def keep_def)

lemma label_cloud_points:
  assumes "cloud_service e waypoint_id 0.01 = Some (frame, cloud)"
    and "origin_service e waypoint_id = Some origin"
    and "extractVoxels e (convert_to_lab e cloud) origin = (voxels0, voxelized0)"
    and "filter_voxels e voxels0 0 = Inr (N, voxels, evs1)"
    and "segments_ok voxels0 voxelized0" and "0 < labeler_C e" and "solver_ok e"
    and "nat N * labeler_C e < 2 ^ 31"
  shows "\<exists>res' st' evs.
       label_cloud e st waypoint_id res = Inr (True, res', st', evs)
     \<and> length (res_label res') = nat N
     \<and> length (res_label_probabilities res') = nat N * labeler_C e
     \<and> length (res_label_frequencies res') = labeler_C e
     \<and> length (res_points res') = nat N
     \<and> length (column_points voxels) = nat N
     \<and> (\<forall>j<nat N. res_points res' ! j = coords (voxelized0 ! (column_points voxels ! j)))"
proof -
  obtain M d pts where r:
      "N = int (length (column_points voxels))"
      "voxels = retained e voxels0"
      "decode e
            (inference e (nat N) (labeler_C e) (unary (M::crf_mats)) (feature M, appearance_weight e)
             (feature2 M, smoothnes_weight e) (crf_iterations e)) voxels (nat N) (blacken voxelized0) = Inr d"
      "copy_points (voxelized_cloud d) voxels (resize (res_points res) (nat N)) = Inr (pts, nat N)"
      "label_cloud e st waypoint_id res =
         Inr (True, fill_response e N d pts res,
              st\<lparr>frame_id := frame,
                 stored_waypoints := map_assign (stored_waypoints st) waypoint_id (voxelized_cloud d)\<rparr>,
              evs1 @ classifier_events voxels
                @ [Inference (nat N) (labeler_C e),
                   publish_clouds (st\<lparr>frame_id := frame,
                     stored_waypoints := map_assign (stored_waypoints st) waypoint_id (voxelized_cloud d)\<rparr>)])"
    by (rule label_cloud_run [OF assms, of res st]) (rule that; assumption)
  have n: "nat N = length (column_points voxels)" using r(1) by simp
  have small: "nat N < 2 ^ 31" by (rule bound_factor [OF assms(6) assms(8)])
  have small2: "length (resize (res_points res) (nat N)) < 2 ^ 32"
    using small by (simp add: length_resize)
  note dr = decode_result [OF r(3) n small]
  note cr = copy_points_result [OF r(4) small2]
  have range: "\<forall>i\<in>set (column_points voxels). i < length voxelized0"
    using segments_ok_range [OF assms(5), of e] r(2) by simp
  have pts: "\<forall>j<nat N. pts ! j = coords (voxelized0 ! (column_points voxels ! j))"
  proof (intro allI impI)
    fix j assume j: "j < nat N"
    let ?i = "column_points voxels ! j"
    have i: "?i < length voxelized0" using range j n by simp
    then have "coords (voxelized_cloud d ! ?i) = coords (blacken voxelized0 ! ?i)"
      using dr(7) by (intro coords_eq) (simp_all add: blacken_def)
    also have "\<dots> = coords (voxelized0 ! ?i)"
      using i by (simp add: blacken_nth coords_def)
    finally show "pts ! j = coords (voxelized0 ! ?i)" using cr(2) j n by simp
  qed
  have "length pts = nat N" using cr(1) by (simp add: length_resize)
  with pts dr(1,2,3) n r(5) show ?thesis
    by (simp add: fill_response_def normalize_frequencies_def)
qed

text \<open>
  C4. When the sizes of the segments of at least \<open>minimum_points\<close> points add up to a
  number of points \<open>N\<close> whose \<open>N * C\<close> probabilities fit the 32-bit \<^verbatim>\<open>int\<close> of the code, the
  filter loop returns: it leaves exactly the segments of at least \<open>minimum_points\<close>
  points (with their features computed), and \<open>N\<close> is the sum of their sizes. The request
  then succeeds, the label, probability, frequency and point arrays have \<open>N\<close>, \<open>N * C\<close>,
  \<open>C\<close> and \<open>N\<close> entries, and every entry of the point array is the coordinate of a point of
  a segment that passed the filter. The discarded segments leave no trace in the result:
  the handler returns the same response, members and events when the segmentation hands
  over the retained segments only (\<open>without_discarded\<close>).
\<close>

theorem filter_retains_large_segments:
  assumes "cloud_service e waypoint_id 0.01 = Some (frame, cloud)"
    and "origin_service e waypoint_id = Some origin"
    and "extractVoxels e (convert_to_lab e cloud) origin = (voxels0, voxelized0)"
    and "segments_ok voxels0 voxelized0" and "0 < labeler_C e" and "solver_ok e"
    and "sum_list (map (\<lambda>kv. getSize (snd kv))
           (filter (\<lambda>kv. minimum_points e \<le> getSize (snd kv)) voxels0)) * int (labeler_C e) < 2 ^ 31"
  shows "\<exists>N voxels evs1.
       filter_voxels e voxels0 0 = Inr (N, voxels, evs1)
     \<and> voxels = map (with_features e) (filter (\<lambda>kv. minimum_points e \<le> getSize (snd kv)) voxels0)
     \<and> N = sum_list (map (\<lambda>kv. getSize (snd kv))
               (filter (\<lambda>kv. minimum_points e \<le> getSize (snd kv)) voxels0))
     \<and> N = sum_list (map (\<lambda>kv. getSize (snd kv)) voxels)
     \<and> 0 \<le> N \<and> N * int (labeler_C e) < 2 ^ 31
     \<and> (\<exists>res' st' evs.
           label_cloud e st waypoint_id res = Inr (True, res', st', evs)
         \<and> length (res_label res') = nat N
         \<and> length (res_label_probabilities res') = nat N * labeler_C e
         \<and> length (res_label_frequencies res') = labeler_C e
         \<and> length (res_points res') = nat N
         \<and> (\<forall>j<nat N. \<exists>kv\<in>set voxels0.
               minimum_points e \<le> getSize (snd kv)
             \<and> column_points voxels ! j \<in> set (getIndices (snd kv))
             \<and> res_points res' ! j = coords (voxelized0 ! (column_points voxels ! j))))
     \<and> label_cloud (without_discarded e) st waypoint_id res = label_cloud e st waypoint_id res"
proof -
  let ?voxels = "retained e voxels0"
  let ?n = "length (column_points ?voxels)"
  let ?N = "int ?n"
  let ?evs1 = "map (\<lambda>kv. ComputeFeatures (fst kv)) (filter (keep e) voxels0)"
  have sum: "sum_list (map (\<lambda>kv. getSize (snd kv))
           (filter (\<lambda>kv. minimum_points e \<le> getSize (snd kv)) voxels0)) = ?N"
    using segments_ok_count [OF assms(4), of e] by (simp only: keep_eq)
  have "int (?n * labeler_C e) < 2 ^ 31"
    using assms(7) unfolding sum by simp
  then have bound: "?n * labeler_C e < 2 ^ 31"
    by (simp only: of_nat_less_numeral_power_cancel_iff)
  have small: "?n < 2 ^ 31" by (rule bound_factor [OF assms(5) bound])
  then have "?N < 2 ^ 31" by (simp only: of_nat_less_numeral_power_cancel_iff)
  then have filt: "filter_voxels e voxels0 0 = Inr (?N, ?voxels, ?evs1)"
    by (rule filter_voxels_segments [OF assms(4)])
  have shape: "?voxels = map (with_features e) (filter (\<lambda>kv. minimum_points e \<le> getSize (snd kv)) voxels0)"
    by (simp add: retained_def keep_eq)
  have count: "?N = sum_list (map (\<lambda>kv. getSize (snd kv)) ?voxels)"
    using segments_ok_count [OF assms(4), of e] by (simp only: sizes_retained)
  have bound': "nat ?N * labeler_C e < 2 ^ 31" using bound by simp
  have prod: "?N * int (labeler_C e) < 2 ^ 31" using assms(7) unfolding sum .
  obtain res' st' evs where run:
      "label_cloud e st waypoint_id res = Inr (True, res', st', evs)"
      "length (res_label res') = nat ?N"
      "length (res_label_probabilities res') = nat ?N * labeler_C e"
      "length (res_label_frequencies res') = labeler_C e"
      "length (res_points res') = nat ?N"
      "length (column_points ?voxels) = nat ?N"
      "\<forall>j<nat ?N. res_points res' ! j = coords (voxelized0 ! (column_points ?voxels ! j))"
    using label_cloud_points [OF assms(1,2,3) filt assms(4,5,6) bound', of st res] by blast
  have members: "\<forall>j<nat ?N. column_segments ?voxels ! j \<in> set ?voxels
         \<and> column_points ?voxels ! j \<in> set (getIndices (snd (column_segments ?voxels ! j)))"
    using column_point_member [of _ ?voxels] by simp
  have points: "\<forall>j<nat ?N. \<exists>kv\<in>set voxels0.
               minimum_points e \<le> getSize (snd kv)
             \<and> column_points ?voxels ! j \<in> set (getIndices (snd kv))
             \<and> res_points res' ! j = coords (voxelized0 ! (column_points ?voxels ! j))"
  proof (intro allI impI)
    fix j assume j: "j < nat ?N"
    then have "column_segments ?voxels ! j \<in> set (retained e voxels0)"
      using members by blast
    from retained_member [OF this] obtain kv0 where kv0:
      "kv0 \<in> set voxels0" "minimum_points e \<le> getSize (snd kv0)"
      "getIndices (snd (column_segments ?voxels ! j)) = getIndices (snd kv0)"
      by blast
    have "column_points ?voxels ! j \<in> set (getIndices (snd kv0))"
      using members j kv0(3) by auto
    moreover have "res_points res' ! j = coords (voxelized0 ! (column_points ?voxels ! j))"
      using run(7) j by blast
    ultimately show "\<exists>kv\<in>set voxels0.
               minimum_points e \<le> getSize (snd kv)
             \<and> column_points ?voxels ! j \<in> set (getIndices (snd kv))
             \<and> res_points res' ! j = coords (voxelized0 ! (column_points ?voxels ! j))"
      using kv0(1,2) by blast
  qed
  have request: "\<exists>res' st' evs.
           label_cloud e st waypoint_id res = Inr (True, res', st', evs)
         \<and> length (res_label res') = nat ?N
         \<and> length (res_label_probabilities res') = nat ?N * labeler_C e
         \<and> length (res_label_frequencies res') = labeler_C e
         \<and> length (res_points res') = nat ?N
         \<and> (\<forall>j<nat ?N. \<exists>kv\<in>set voxels0.
               minimum_points e \<le> getSize (snd kv)
             \<and> column_points ?voxels ! j \<in> set (getIndices (snd kv))
             \<and> res_points res' ! j = coords (voxelized0 ! (column_points ?voxels ! j)))"
    using run(1,2,3,4,5) points by blast
  have nonneg: "0 \<le> ?N" by simp
  show ?thesis
    by (intro exI [of _ ?N] exI [of _ ?voxels] exI [of _ ?evs1] conjI)
       (rule filt shape sum [symmetric] count nonneg prod request
          discarded_segments_irrelevant)+
qed

section \<open>The example environment\<close>

lemma demo_convert: "convert_to_lab demo_env cloud = cloud"
  by (simp add: convert_to_lab_def demo_env_def)

lemma demo_cloud_call: "cloud_service demo_env ''A'' 0.01 = Some (''map'', demo_cloud_A)"
  by (simp add: demo_env_def)

lemma demo_origin_call: "origin_service demo_env ''A'' = Some demo_origin"
  by (simp add: demo_env_def)

lemma demo_extract:
  "extractVoxels demo_env (convert_to_lab demo_env demo_cloud_A) demo_origin = (demo_voxels_A, demo_cloud_A)"
  by (simp add: demo_convert) (simp add: demo_env_def demo_cloud_A_def)

lemma demo_filter:
  "filter_voxels demo_env demo_voxels_A 0 = Inr (5, demo_retained_A, [ComputeFeatures 0])"
  by (simp add: demo_voxels_A_def demo_retained_A_def demo_env_def in_int_def)

lemma demo_segments: "segments_ok demo_voxels_A demo_cloud_A"
  by (simp add: segments_ok_def demo_voxels_A_def demo_cloud_A_def)

lemma demo_classes: "0 < labeler_C demo_env"
  by (simp add: demo_env_def)

lemma demo_solver: "solver_ok demo_env"
  by (simp add: solver_ok_def demo_env_def list_all_iff)

lemma demo_bound: "nat 5 * labeler_C demo_env < 2 ^ 31"
  by (simp add: demo_env_def)

lemma demo_sizes:
  "sum_list (map (\<lambda>kv. getSize (snd kv))
     (filter (\<lambda>kv. minimum_points demo_env \<le> getSize (snd kv)) demo_voxels_A))
     * int (labeler_C demo_env) < 2 ^ 31"
  by (simp add: demo_env_def demo_voxels_A_def)

lemma demo_columns: "column_points demo_retained_A = [0, 1, 2, 3, 4]"
  by (simp add: column_points_def demo_retained_A_def)

lemma demo_acquired_B:
  "label_acquired demo_env (demo_labeler\<lparr>frame_id := ''map''\<rparr>) ''B'' demo_cloud_B demo_origin
          demo_response =
     Inr (True,
          \<lparr>res_index_to_label_name = [''floor'', ''wall'', ''chair''], res_label = [],
           res_label_probabilities = [], res_label_frequencies = [NaN, NaN, NaN],
           res_points = []\<rparr>,
          \<lparr>stored_waypoints = [(''B'', blacken demo_cloud_B)], frame_id = ''map''\<rparr>,
          [Inference 0 3, Publish ''map'' (map to_xyzrgb (blacken demo_cloud_B))])"
proof -
  have seg: "extractVoxels demo_env (convert_to_lab demo_env demo_cloud_B) demo_origin
      = (demo_voxels_B, demo_cloud_B)"
    by (simp add: demo_convert) (simp add: demo_env_def demo_cloud_B_def)
  have filt: "filter_voxels demo_env demo_voxels_B 0 = Inr (0, [], [])"
    by (simp add: demo_voxels_B_def demo_env_def)
  have C: "labeler_C demo_env = 3" by (simp add: demo_env_def)
  have build: "build_energies demo_env [] 0
      = Inr (\<lparr>unary = [], feature = [], feature2 = [], crf_point_index = 0\<rparr>, [])"
    by (simp add: build_energies_def new_matrix_def)
  have dec: "decode demo_env m [] 0 (blacken demo_cloud_B)
      = Inr \<lparr>voxelized_cloud = blacken demo_cloud_B, result_labels = [], result_prob = [],
             label_frequencies = [Finite 0, Finite 0, Finite 0], point_index = 0\<rparr>" for m
    by (simp add: decode_def C numeral_3_eq_3 in_int_def)
  have norm: "normalize_frequencies demo_env 0 [Finite 0, Finite 0, Finite 0] = [NaN, NaN, NaN]"
    by (simp add: normalize_frequencies_def float_of_int_def)
  have cp: "copy_points cloud [] (resize [] 0) = Inr ([], 0)" for cloud
    by (simp add: copy_points_def resize_def)
  have names: "getLabelNames demo_env = [''floor'', ''wall'', ''chair'']"
    by (simp add: demo_env_def)
  show ?thesis
    by (simp add: label_acquired_def seg filt build dec norm cp names demo_response_def
        demo_labeler_def publish_clouds_def fuse_eq C Let_def)
qed

lemma demo_calls_B:
  "cloud_service demo_env ''B'' 0.01 = Some (''map'', demo_cloud_B)"
  "origin_service demo_env ''B'' = Some demo_origin"
  by (simp_all add: demo_env_def)

theorem response_shapes_witness:
  "\<exists>M evs2 res' st' evs.
       build_energies demo_env demo_retained_A 5 = Inr (M, evs2)
     \<and> label_cloud demo_env demo_labeler ''A'' demo_response = Inr (True, res', st', evs)
     \<and> res_index_to_label_name res' = [''floor'', ''wall'', ''chair'']
     \<and> length (res_label res') = 5
     \<and> length (res_label_probabilities res') = 15
     \<and> length (res_label_frequencies res') = 3
     \<and> length (res_points res') = 5"
  using response_shapes [OF demo_cloud_call demo_origin_call demo_extract demo_filter
      demo_segments demo_classes demo_solver demo_bound, of demo_labeler demo_response]
  by (auto simp: demo_env_def)

theorem column_order_consistent_witness:
  "\<exists>M evs2 res' st' evs stored.
       build_energies demo_env demo_retained_A 5 = Inr (M, evs2)
     \<and> label_cloud demo_env demo_labeler ''A'' demo_response = Inr (True, res', st', evs)
     \<and> length (column_points demo_retained_A) = 5
     \<and> unary M ! 4 = [Finite 0.7, Finite 0.2, Finite 0.1]
     \<and> res_label res' ! 4 = int (decode_label
          (inference demo_env 5 3 (unary M) (feature M, appearance_weight demo_env)
             (feature2 M, smoothnes_weight demo_env) (crf_iterations demo_env)) 3 4)
     \<and> res_points res' ! 4 = coords (demo_cloud_A ! 4)
     \<and> map_of (stored_waypoints st') ''A'' = Some stored
     \<and> (pr (stored ! 4), pg (stored ! 4), pb (stored ! 4)) = labelToRgb demo_env (res_label res' ! 4)"
proof -
  have C: "labeler_C demo_env = 3" by (simp add: demo_env_def)
  have post: "classLogPosterior demo_env f = [Finite 0.7, Finite 0.2, Finite 0.1]" for f
    by (simp add: demo_env_def)
  have d: "distinct (column_points demo_retained_A)" by (simp add: demo_columns)
  from column_order_consistent [OF demo_cloud_call demo_origin_call demo_extract demo_filter
      demo_segments demo_classes demo_solver demo_bound, of demo_labeler demo_response]
  obtain M evs2 res' st' evs where r:
      "build_energies demo_env demo_retained_A (nat 5) = Inr (M, evs2)"
      "label_cloud demo_env demo_labeler ''A'' demo_response = Inr (True, res', st', evs)"
      "length (column_points demo_retained_A) = nat 5"
      "\<forall>j<nat 5.
           unary M ! j = classLogPosterior demo_env (getFeatures (snd (column_segments demo_retained_A ! j)))
         \<and> res_label res' ! j = int (decode_label
            (inference demo_env (nat 5) (labeler_C demo_env) (unary M) (feature M, appearance_weight demo_env)
             (feature2 M, smoothnes_weight demo_env) (crf_iterations demo_env)) (labeler_C demo_env) j)
         \<and> res_points res' ! j = coords (demo_cloud_A ! (column_points demo_retained_A ! j))"
      "distinct (column_points demo_retained_A) \<longrightarrow>
          (\<exists>stored. map_of (stored_waypoints st') ''A'' = Some stored
             \<and> (\<forall>j<nat 5. (pr (stored ! (column_points demo_retained_A ! j)),
                           pg (stored ! (column_points demo_retained_A ! j)),
                           pb (stored ! (column_points demo_retained_A ! j)))
                          = labelToRgb demo_env (res_label res' ! j)))"
    by blast
  from r(5) d obtain stored where s:
      "map_of (stored_waypoints st') ''A'' = Some stored"
      "\<forall>j<nat 5. (pr (stored ! (column_points demo_retained_A ! j)),
                           pg (stored ! (column_points demo_retained_A ! j)),
                           pb (stored ! (column_points demo_retained_A ! j)))
                          = labelToRgb demo_env (res_label res' ! j)"
    by blast
  have four: "(4::nat) < nat 5" by simp
  from r(4) four have a:
      "unary M ! 4 = classLogPosterior demo_env (getFeatures (snd (column_segments demo_retained_A ! 4)))"
      "res_label res' ! 4 = int (decode_label
            (inference demo_env (nat 5) (labeler_C demo_env) (unary M) (feature M, appearance_weight demo_env)
             (feature2 M, smoothnes_weight demo_env) (crf_iterations demo_env)) (labeler_C demo_env) 4)"
      "res_points res' ! 4 = coords (demo_cloud_A ! (column_points demo_retained_A ! 4))"
    by blast+
  from s(2) four have b: "(pr (stored ! (column_points demo_retained_A ! 4)),
                           pg (stored ! (column_points demo_retained_A ! 4)),
                           pb (stored ! (column_points demo_retained_A ! 4)))
                          = labelToRgb demo_env (res_label res' ! 4)"
    by blast
  have c4: "column_points demo_retained_A ! 4 = 4" by (simp add: demo_columns)
  show ?thesis
    using r(1,2,3) a b s(1) by (intro exI [of _ M] exI [of _ evs2] exI [of _ res'] exI [of _ st']
        exI [of _ evs] exI [of _ stored]) (simp add: C post c4)
qed

theorem classifier_once_per_segment_witness:
  "\<exists>M evs2 res' st' evs.
       build_energies demo_env demo_retained_A 5 = Inr (M, evs2)
     \<and> label_cloud demo_env demo_labeler ''A'' demo_response = Inr (True, res', st', evs)
     \<and> classifier_calls evs = [0]
     \<and> feature_calls evs = [0]
     \<and> count_list (classifier_calls evs) 0 = 1"
  using classifier_once_per_segment [OF demo_cloud_call demo_origin_call demo_extract demo_filter
      demo_segments demo_classes demo_solver demo_bound, of demo_labeler demo_response]
  by (auto simp: demo_retained_A_def)


theorem filter_retains_large_segments_witness:
  "filter_voxels demo_env demo_voxels_A 0 = Inr (5, demo_retained_A, [ComputeFeatures 0])
   \<and> demo_retained_A = map (with_features demo_env) (filter (\<lambda>kv. 3 \<le> getSize (snd kv)) demo_voxels_A)
   \<and> (5::int) = sum_list (map (\<lambda>kv. getSize (snd kv)) demo_retained_A)
   \<and> (\<exists>res' st' evs.
         label_cloud demo_env demo_labeler ''A'' demo_response = Inr (True, res', st', evs)
       \<and> length (res_label res') = 5 \<and> length (res_label_probabilities res') = 15
       \<and> length (res_points res') = 5)
   \<and> label_cloud (without_discarded demo_env) demo_labeler ''A'' demo_response
       = label_cloud demo_env demo_labeler ''A'' demo_response"
proof -
  have m: "minimum_points demo_env = 3" and C: "labeler_C demo_env = 3"
    by (simp_all add: demo_env_def)
  from filter_retains_large_segments [OF demo_cloud_call demo_origin_call demo_extract
      demo_segments demo_classes demo_solver demo_sizes, of demo_labeler demo_response]
  obtain N voxels evs1 where r:
      "filter_voxels demo_env demo_voxels_A 0 = Inr (N, voxels, evs1)"
      "voxels = map (with_features demo_env)
         (filter (\<lambda>kv. minimum_points demo_env \<le> getSize (snd kv)) demo_voxels_A)"
      "N = sum_list (map (\<lambda>kv. getSize (snd kv)) voxels)"
      "\<exists>res' st' evs.
           label_cloud demo_env demo_labeler ''A'' demo_response = Inr (True, res', st', evs)
         \<and> length (res_label res') = nat N
         \<and> length (res_label_probabilities res') = nat N * labeler_C demo_env
         \<and> length (res_points res') = nat N"
      "label_cloud (without_discarded demo_env) demo_labeler ''A'' demo_response
         = label_cloud demo_env demo_labeler ''A'' demo_response"
    by blast
  from r(1) have N: "N = 5" and vs: "voxels = demo_retained_A"
    by (simp_all add: demo_filter)
  show ?thesis
    using r(2,3,4,5) by (simp add: N vs m C demo_filter)
qed


theorem acquisition_failure_witness:
  "label_cloud demo_env demo_labeler ''X'' demo_response = Inr (False, demo_response, demo_labeler, [])
   \<and> label_cloud_plus demo_env demo_labeler ''X'' 1 demo_response
       = Inr (False, demo_response, demo_labeler, [])"
  using acquisition_failure [of demo_env "''X''" demo_labeler demo_response 1]
  by (simp add: demo_env_def)

theorem handlers_agree_witness:
  "label_cloud_plus demo_env demo_labeler ''A'' 1 demo_response
     = label_cloud demo_env demo_labeler ''A'' demo_response"
  using handlers_agree [of demo_env "''A''" 1 demo_labeler demo_response]
  by (simp add: demo_env_def)

text \<open>
  C1, evaluated on a request without retained points. Waypoint \<open>B\<close> of the example
  environment has one segment of two points, below the minimum of three, so \<open>N = 0\<close>. The
  request succeeds with empty label, probability and point arrays, and line 197 divides
  each of the three zero sums by \<^verbatim>\<open>float(0)\<close>: the frequencies are NaN, not zero.
\<close>

theorem frequencies_nan_without_points:
  "label_cloud demo_env demo_labeler ''B'' demo_response =
     Inr (True,
          \<lparr>res_index_to_label_name = [''floor'', ''wall'', ''chair''], res_label = [],
           res_label_probabilities = [], res_label_frequencies = [NaN, NaN, NaN],
           res_points = []\<rparr>,
          \<lparr>stored_waypoints = [(''B'', blacken demo_cloud_B)], frame_id = ''map''\<rparr>,
          [Inference 0 3, Publish ''map'' (map to_xyzrgb (blacken demo_cloud_B))])"
  using demo_acquired_B demo_calls_B by (simp add: label_cloud_def)

end
